theory Spec2Isabelle
  imports Complex_Main "HOL-Library.AList"
begin

section \<open>Gateway provisioning across the identity registry and the radio plane\<close>

text \<open>
  A shallow embedding of \<^verbatim>\<open>scripts/provision_gateway.py\<close>: the client methods of
  \<^verbatim>\<open>TTNClient\<close>, the orchestration in \<^verbatim>\<open>GatewayProvisioner.provision\<close>, the run log
  built by \<^verbatim>\<open>_summary\<close>, \<^verbatim>\<open>deprovision_gateway\<close> and the derivation of the default
  gateway id in the three entry points.

  Conventions of the embedding.
  \<^item> JSON values are the datatype \<open>jval\<close>; a Python dict is an association list in
    insertion order (\<open>dict.get\<close> is \<open>dict_get\<close>, \<open>{**d, k: v}\<close> is \<open>AList.update\<close>).
  \<^item> A Python string is a list of bytes (UTF-8); an f-string that interpolates a value
    which is not known to be a string is kept as the list of its parts (\<open>fstring\<close>):
    literal text, \<open>str(v)\<close> of a value, or \<open>json.dumps(v, indent=2)\<close> of a value.
  \<^item> Everything outside the process is the environment \<open>'w env\<close> acting on a world
    \<open>'w\<close>: the HTTP exchange behind \<^verbatim>\<open>TTNClient._request\<close>, the clock, the process
    environment variables and the Supabase client. The code is a function of the
    environment, so a statement proved for every environment holds for every behaviour of
    the two servers.
  \<^item> Console output of \<^verbatim>\<open>provision\<close> (\<^verbatim>\<open>step_info\<close>, \<^verbatim>\<open>step_ok\<close>, \<^verbatim>\<open>print\<close>,
    \<^verbatim>\<open>_print_connection_info\<close>) and \<^verbatim>\<open>time.sleep\<close> change no state and are left out
    there; in \<^verbatim>\<open>deprovision_gateway\<close>, where the console is the only report, the
    \<^verbatim>\<open>step_*\<close> lines are kept. Response bodies are JSON objects and file writes
    succeed.
\<close>

subsection \<open>JSON values, dictionaries and formatted strings\<close>

datatype jval =
    JNull
  | JBool bool
  | JInt int
  | JFloat real
  | JStr string
  | JArr "jval list"
  | JObj "(string \<times> jval) list"

type_synonym jdict = "(string \<times> jval) list"

definition dict_get :: "jdict \<Rightarrow> string \<Rightarrow> jval \<Rightarrow> jval" where
  "dict_get d k dflt = (case map_of d k of Some v \<Rightarrow> v | None \<Rightarrow> dflt)"

datatype piece = Lit string | Str jval | Dumps jval

type_synonym fstring = "piece list"

definition arrow :: string where
  "arrow = [CHR 0xE2, CHR 0x86, CHR 0x92]"

definition emdash :: string where
  "emdash = [CHR 0xE2, CHR 0x80, CHR 0x94]"

subsection \<open>The two fixed endpoints and the defaults\<close>

definition IDENTITY_BASE_URL :: string where
  "IDENTITY_BASE_URL = ''https://eu1.cloud.thethings.network''"

definition REGIONAL_BASE_URL :: string where
  "REGIONAL_BASE_URL = ''https://nam1.cloud.thethings.network''"

definition NAM1_HOST :: string where
  "NAM1_HOST = ''nam1.cloud.thethings.network''"

definition DEFAULT_FREQUENCY_PLAN :: string where
  "DEFAULT_FREQUENCY_PLAN = ''US_902_928_FSB_2''"

definition SCRIPT_VERSION :: string where
  "SCRIPT_VERSION = ''fg-provision-gateway-v1.0-20260211''"

subsection \<open>TTNClient\<close>

text \<open>
  The dictionary \<^verbatim>\<open>{"status": ..., "body": ..., "ok": ...}\<close> that \<^verbatim>\<open>_request\<close> returns
  on each of its three paths.
\<close>

record response =
  status :: int
  body :: jdict
  ok :: bool

text \<open>One constructor for each client method, with the method's arguments.\<close>

datatype call =
    get_gateway string
  | register_gateway_for_user string jdict
  | register_gateway_for_org string jdict
  | update_gateway string jdict "string list"
  | delete_gateway string
  | purge_gateway string
  | create_gateway_api_key string string "string list"
  | list_gateway_api_keys string
  | get_gateway_connection_stats string

record http_request =
  http_method :: string
  url :: string
  payload :: "jval option"

text \<open>What each client method hands to \<^verbatim>\<open>_request\<close>: the method, the URL and the JSON payload.\<close>

fun wire :: "call \<Rightarrow> http_request" where
  "wire (get_gateway gateway_id) =
     \<lparr>http_method = ''GET'',
      url = IDENTITY_BASE_URL @ ''/api/v3/gateways/'' @ gateway_id
        @ ''?field_mask=ids,name,frequency_plan_ids,gateway_server_address,''
        @ ''antennas,status_public,location_public,enforce_duty_cycle,''
        @ ''require_authenticated_connection'',
      payload = None\<rparr>"
| "wire (register_gateway_for_user user_id gateway) =
     \<lparr>http_method = ''POST'',
      url = IDENTITY_BASE_URL @ ''/api/v3/users/'' @ user_id @ ''/gateways'',
      payload = Some (JObj [(''gateway'', JObj gateway)])\<rparr>"
| "wire (register_gateway_for_org org_id gateway) =
     \<lparr>http_method = ''POST'',
      url = IDENTITY_BASE_URL @ ''/api/v3/organizations/'' @ org_id @ ''/gateways'',
      payload = Some (JObj [(''gateway'', JObj gateway)])\<rparr>"
| "wire (update_gateway gateway_id gateway field_mask) =
     \<lparr>http_method = ''PUT'',
      url = IDENTITY_BASE_URL @ ''/api/v3/gateways/'' @ gateway_id,
      payload = Some (JObj
        [(''gateway'',
            JObj (AList.update ''ids'' (JObj [(''gateway_id'', JStr gateway_id)]) gateway)),
         (''field_mask'', JObj [(''paths'', JArr (map JStr field_mask))])])\<rparr>"
| "wire (delete_gateway gateway_id) =
     \<lparr>http_method = ''DELETE'',
      url = IDENTITY_BASE_URL @ ''/api/v3/gateways/'' @ gateway_id,
      payload = None\<rparr>"
| "wire (purge_gateway gateway_id) =
     \<lparr>http_method = ''DELETE'',
      url = IDENTITY_BASE_URL @ ''/api/v3/gateways/'' @ gateway_id @ ''/purge'',
      payload = None\<rparr>"
| "wire (create_gateway_api_key gateway_id key_name rights) =
     \<lparr>http_method = ''POST'',
      url = IDENTITY_BASE_URL @ ''/api/v3/gateways/'' @ gateway_id @ ''/api-keys'',
      payload = Some (JObj [(''name'', JStr key_name), (''rights'', JArr (map JStr rights))])\<rparr>"
| "wire (list_gateway_api_keys gateway_id) =
     \<lparr>http_method = ''GET'',
      url = IDENTITY_BASE_URL @ ''/api/v3/gateways/'' @ gateway_id @ ''/api-keys'',
      payload = None\<rparr>"
| "wire (get_gateway_connection_stats gateway_id) =
     \<lparr>http_method = ''GET'',
      url = REGIONAL_BASE_URL @ ''/api/v3/gs/gateways/'' @ gateway_id @ ''/connection/stats'',
      payload = None\<rparr>"

text \<open>Which server-side operation a call is.\<close>

fun is_register :: "call \<Rightarrow> bool" where
  "is_register (register_gateway_for_user _ _) = True"
| "is_register (register_gateway_for_org _ _) = True"
| "is_register _ = False"

fun is_update :: "call \<Rightarrow> bool" where
  "is_update (update_gateway _ _ _) = True"
| "is_update _ = False"

fun is_delete :: "call \<Rightarrow> bool" where
  "is_delete (delete_gateway _) = True"
| "is_delete _ = False"

fun is_purge :: "call \<Rightarrow> bool" where
  "is_purge (purge_gateway _) = True"
| "is_purge _ = False"

fun is_create_key :: "call \<Rightarrow> bool" where
  "is_create_key (create_gateway_api_key _ _ _) = True"
| "is_create_key _ = False"

fun is_stats :: "call \<Rightarrow> bool" where
  "is_stats (get_gateway_connection_stats _) = True"
| "is_stats _ = False"

text \<open>The paths of the field mask a call puts on the wire (none for a call without one).\<close>

fun field_mask_of :: "call \<Rightarrow> string list" where
  "field_mask_of (update_gateway _ _ field_mask) = field_mask"
| "field_mask_of _ = []"

subsection \<open>The environment\<close>

text \<open>
  \<open>isoformat\<close> and \<open>strftime_Ymd\<close> are the two renderings of one clock reading that the
  code uses (\<^verbatim>\<open>.isoformat()\<close> and \<^verbatim>\<open>.strftime('%Y%m%d')\<close>).
\<close>

record datetime =
  isoformat :: string
  strftime_Ymd :: string

text \<open>
  \<open>request\<close> is the exchange behind a client method; \<open>utcnow\<close> is
  \<^verbatim>\<open>datetime.now(timezone.utc)\<close>; \<open>getenv\<close> is \<^verbatim>\<open>os.getenv\<close>; \<open>create_client\<close> says
  whether importing and creating the Supabase client went through without an exception;
  \<open>upsert\<close> is the upsert into \<^verbatim>\<open>gateways\<close>: \<open>None\<close> when it raised, \<open>Some b\<close> with
  \<open>b = bool(result.data)\<close> otherwise.
\<close>

record 'w env =
  request :: "call \<Rightarrow> 'w \<Rightarrow> response \<times> 'w"
  utcnow :: "'w \<Rightarrow> datetime \<times> 'w"
  getenv :: "string \<Rightarrow> 'w \<Rightarrow> string option"
  create_client :: "string \<Rightarrow> string \<Rightarrow> 'w \<Rightarrow> bool"
  upsert :: "jdict \<Rightarrow> 'w \<Rightarrow> bool option \<times> 'w"

subsection \<open>GatewayProvisioner\<close>

record step_result =
  step :: string
  success :: bool
  message :: fstring
  data :: jdict
  timestamp :: string

text \<open>The local dictionary \<^verbatim>\<open>credentials\<close> of \<^verbatim>\<open>provision\<close>, one field for each key it can hold.\<close>

datatype path = Path string | Slash path string

record credentials =
  lns_key :: "jval option"
  lns_key_id :: "jval option"
  lns_key_file :: "path option"
  cups_key :: "jval option"
  cups_key_id :: "jval option"
  cups_key_file :: "path option"

definition no_credentials :: credentials where
  "no_credentials =
     \<lparr>lns_key = None, lns_key_id = None, lns_key_file = None,
      cups_key = None, cups_key_id = None, cups_key_file = None\<rparr>"

text \<open>The dictionary \<^verbatim>\<open>log\<close> that \<^verbatim>\<open>_summary\<close> builds, writes as JSON and returns.\<close>

record provision_log =
  log_gateway_id :: string
  log_script_version :: string
  log_timestamp :: string
  log_identity_server :: string
  log_gateway_server :: string
  log_gateway_server_address :: string
  log_steps :: "step_result list"
  log_lns_key_id :: "jval option"
  log_cups_key_id :: "jval option"

datatype file_content = Text fstring | Json provision_log

text \<open>
  The state of one run: the world, the exchanges made through the client so far (each call
  with the response it got), \<^verbatim>\<open>self.results\<close>, the local \<^verbatim>\<open>credentials\<close> and the files
  written.
\<close>

record 'w run =
  world :: 'w
  exchanges :: "(call \<times> response) list"
  results :: "step_result list"
  creds :: credentials
  written :: "(path \<times> file_content) list"

definition GatewayProvisioner :: "'w \<Rightarrow> 'w run" where
  "GatewayProvisioner w =
     \<lparr>world = w, exchanges = [], results = [], creds = no_credentials, written = []\<rparr>"

definition client :: "'w env \<Rightarrow> call \<Rightarrow> 'w run \<Rightarrow> response \<times> 'w run" where
  "client E c p =
     (let (r, w') = request E c (world p)
      in (r, p\<lparr>world := w', exchanges := exchanges p @ [(c, r)]\<rparr>))"

definition now :: "'w env \<Rightarrow> 'w run \<Rightarrow> datetime \<times> 'w run" where
  "now E p = (let (t, w') = utcnow E (world p) in (t, p\<lparr>world := w'\<rparr>))"

text \<open>\<^verbatim>\<open>_record\<close>: \<^verbatim>\<open>data or {}\<close> is the empty dictionary when no data is passed.\<close>

definition record_step ::
  "'w env \<Rightarrow> string \<Rightarrow> bool \<Rightarrow> fstring \<Rightarrow> jdict option \<Rightarrow> 'w run \<Rightarrow> 'w run" where
  "record_step E stp s msg d p =
     (let (t, p') = now E p
      in p'\<lparr>results := results p' @
           [\<lparr>step = stp, success = s, message = msg,
             data = (case d of None \<Rightarrow> [] | Some x \<Rightarrow> x),
             timestamp = isoformat t\<rparr>]\<rparr>)"

record args =
  gateway_id :: string
  gateway_eui :: string
  name :: string
  owner_id :: string
  owner_type :: string
  frequency_plan :: string
  latitude :: "real option"
  longitude :: "real option"
  altitude :: "real option"
  location_public :: bool
  status_public :: bool
  enforce_duty_cycle :: bool
  require_authenticated :: bool
  generate_lns_key :: bool
  generate_cups_key :: bool
  output_dir :: string
  fg_org_id :: "string option"
  fg_site_id :: "string option"

text \<open>Python truthiness of an optional string: neither \<^verbatim>\<open>None\<close> nor empty.\<close>

fun truthy :: "string option \<Rightarrow> bool" where
  "truthy None = False"
| "truthy (Some s) = (s \<noteq> [])"

text \<open>\<^verbatim>\<open>altitude or 0\<close>.\<close>

fun altitude_or_0 :: "real option \<Rightarrow> jval" where
  "altitude_or_0 None = JInt 0"
| "altitude_or_0 (Some x) = (if x = 0 then JInt 0 else JFloat x)"

text \<open>Step 1: check whether the gateway already exists.\<close>

definition step1 :: "'w env \<Rightarrow> args \<Rightarrow> 'w run \<Rightarrow> response \<times> 'w run" where
  "step1 E a p =
     (let (existing, p1) = client E (get_gateway (gateway_id a)) p
      in (existing,
          if ok existing
          then record_step E ''check_existing'' True [Lit ''Gateway already registered'']
                 (Some (body existing)) p1
          else p1))"

definition gateway_payload :: "args \<Rightarrow> jdict" where
  "gateway_payload a =
     [(''ids'', JObj [(''gateway_id'', JStr (gateway_id a)), (''eui'', JStr (gateway_eui a))]),
      (''name'', JStr (name a)),
      (''frequency_plan_ids'', JArr [JStr (frequency_plan a)]),
      (''gateway_server_address'', JStr NAM1_HOST),
      (''enforce_duty_cycle'', JBool (enforce_duty_cycle a)),
      (''require_authenticated_connection'', JBool (require_authenticated a)),
      (''status_public'', JBool (status_public a)),
      (''location_public'', JBool (location_public a))]"

definition register_call :: "args \<Rightarrow> call" where
  "register_call a =
     (if owner_type a = ''org''
      then register_gateway_for_org (owner_id a) (gateway_payload a)
      else register_gateway_for_user (owner_id a) (gateway_payload a))"

definition pointer_update_call :: "args \<Rightarrow> call" where
  "pointer_update_call a =
     update_gateway (gateway_id a) [(''gateway_server_address'', JStr NAM1_HOST)]
       [''gateway_server_address'']"

text \<open>
  Step 2: register the gateway, or check the pointer of the existing record. The flag is
  \<open>False\<close> on the one path where \<^verbatim>\<open>provision\<close> returns early (registration failed).
\<close>

definition step2 :: "'w env \<Rightarrow> args \<Rightarrow> response \<Rightarrow> 'w run \<Rightarrow> bool \<times> 'w run" where
  "step2 E a existing p =
     (if \<not> ok existing then
        (let (result, p1) = client E (register_call a) p
         in if ok result
            then (True,
                  record_step E ''register'' True
                    [Lit (''Gateway registered on EU1 '' @ arrow @ '' gateway_server_address: ''
                          @ NAM1_HOST)]
                    (Some (body result)) p1)
            else (False,
                  record_step E ''register'' False
                    [Lit ''Registration failed ('', Str (JInt (status result)), Lit ''): '',
                     Dumps (JObj (body result))]
                    None p1))
      else
        (let gw_data = body existing;
             gw_server = dict_get gw_data ''gateway_server_address'' (JStr '''')
         in if gw_server \<noteq> JStr NAM1_HOST then
              (let (update_result, p1) = client E (pointer_update_call a) p
               in (True,
                   if ok update_result
                   then record_step E ''update_server_address'' True
                          [Lit (''Updated gateway_server_address '' @ arrow @ '' '' @ NAM1_HOST)]
                          None p1
                   else record_step E ''update_server_address'' False
                          [Lit ''Failed to update: '', Str (JObj (body update_result))]
                          None p1))
            else (True, p)))"

text \<open>Step 3: set the antenna location when both coordinates are given.\<close>

definition location_payload :: "real \<Rightarrow> real \<Rightarrow> real option \<Rightarrow> jdict" where
  "location_payload lat lon alt =
     [(''antennas'', JArr [JObj [(''location'', JObj
         [(''latitude'', JFloat lat),
          (''longitude'', JFloat lon),
          (''altitude'', altitude_or_0 alt),
          (''source'', JStr ''SOURCE_REGISTRY'')])]])]"

definition step3 :: "'w env \<Rightarrow> args \<Rightarrow> 'w run \<Rightarrow> 'w run" where
  "step3 E a p =
     (case (latitude a, longitude a) of
        (Some lat, Some lon) \<Rightarrow>
          (let (loc_result, p1) =
                 client E (update_gateway (gateway_id a)
                   (location_payload lat lon (altitude a)) [''antennas'']) p
           in if ok loc_result
              then record_step E ''set_location'' True
                     [Lit ''Location set: '', Str (JFloat lat), Lit '', '', Str (JFloat lon),
                      Lit '', alt '', Str (altitude_or_0 (altitude a)), Lit ''m'']
                     None p1
              else record_step E ''set_location'' False
                     [Lit ''Failed: '', Str (JObj (body loc_result))] None p1)
      | _ \<Rightarrow> p)"

text \<open>Step 4: create the LNS key and write its key file.\<close>

definition step4 :: "'w env \<Rightarrow> args \<Rightarrow> 'w run \<Rightarrow> 'w run" where
  "step4 E a p =
     (if generate_lns_key a then
        (let (t, p0) = now E p;
             (lns_result, p1) =
               client E (create_gateway_api_key (gateway_id a)
                 (''FrostGuard LNS Key - '' @ strftime_Ymd t) [''RIGHT_GATEWAY_LINK'']) p0
         in if ok lns_result then
              (let lns_key_v = dict_get (body lns_result) ''key'' (JStr '''');
                   lns_key_id_v = dict_get (body lns_result) ''id'' (JStr '''');
                   p2 = p1\<lparr>creds := (creds p1)\<lparr>lns_key := Some lns_key_v,
                                                   lns_key_id := Some lns_key_id_v\<rparr>\<rparr>;
                   p3 = record_step E ''create_lns_key'' True
                          [Lit ''LNS key created (ID: '', Str lns_key_id_v, Lit '')''] None p2;
                   lns_key_path = Slash (Path (output_dir a)) (gateway_id a @ ''_lns.key'')
               in p3\<lparr>written := written p3 @
                        [(lns_key_path,
                          Text [Lit ''Authorization: Bearer '', Str lns_key_v,
                                Lit [CHR 0x0D, CHR 0x0A]])],
                      creds := (creds p3)\<lparr>lns_key_file := Some lns_key_path\<rparr>\<rparr>)
            else record_step E ''create_lns_key'' False
                   [Lit ''Failed: '', Str (JObj (body lns_result))] None p1)
      else p)"

text \<open>Step 5: create the CUPS key and write its key file.\<close>

definition cups_rights :: "string list" where
  "cups_rights =
     [''RIGHT_GATEWAY_INFO'', ''RIGHT_GATEWAY_SETTINGS_BASIC'', ''RIGHT_GATEWAY_READ_SECRETS'']"

definition step5 :: "'w env \<Rightarrow> args \<Rightarrow> 'w run \<Rightarrow> 'w run" where
  "step5 E a p =
     (if generate_cups_key a then
        (let (t, p0) = now E p;
             (cups_result, p1) =
               client E (create_gateway_api_key (gateway_id a)
                 (''FrostGuard CUPS Key - '' @ strftime_Ymd t) cups_rights) p0
         in if ok cups_result then
              (let cups_key_v = dict_get (body cups_result) ''key'' (JStr '''');
                   cups_key_id_v = dict_get (body cups_result) ''id'' (JStr '''');
                   p2 = p1\<lparr>creds := (creds p1)\<lparr>cups_key := Some cups_key_v,
                                                   cups_key_id := Some cups_key_id_v\<rparr>\<rparr>;
                   p3 = record_step E ''create_cups_key'' True
                          [Lit ''CUPS key created (ID: '', Str cups_key_id_v, Lit '')''] None p2;
                   cups_key_path = Slash (Path (output_dir a)) (gateway_id a @ ''_cups.key'')
               in p3\<lparr>written := written p3 @
                        [(cups_key_path,
                          Text [Lit ''Authorization: Bearer '', Str cups_key_v,
                                Lit [CHR 0x0D, CHR 0x0A]])],
                      creds := (creds p3)\<lparr>cups_key_file := Some cups_key_path\<rparr>\<rparr>)
            else record_step E ''create_cups_key'' False
                   [Lit ''Failed: '', Str (JObj (body cups_result))] None p1)
      else p)"

text \<open>Step 6: ask the radio-plane server for the connection state.\<close>

definition step6 :: "'w env \<Rightarrow> args \<Rightarrow> 'w run \<Rightarrow> 'w run" where
  "step6 E a p =
     (let (stats, p1) = client E (get_gateway_connection_stats (gateway_id a)) p
      in if ok stats then
           record_step E ''verify_nam1'' True [Lit ''Gateway is connected on NAM1!''] None p1
         else if status stats = 404 then
           record_step E ''verify_nam1'' True
             [Lit (''Gateway registered but not yet connected (expected '' @ emdash
                   @ '' connect your hardware)'')] None p1
         else
           record_step E ''verify_nam1'' False
             [Lit ''Could not verify on NAM1 ('', Str (JInt (status stats)), Lit ''): '',
              Str (JObj (body stats))] None p1)"

text \<open>\<^verbatim>\<open>_store_in_supabase\<close>, called with the keyword arguments \<^verbatim>\<open>provision\<close> passes.\<close>

definition store_in_supabase :: "'w env \<Rightarrow> args \<Rightarrow> 'w run \<Rightarrow> bool \<times> 'w run" where
  "store_in_supabase E a p =
     (let supabase_url = getenv E ''SUPABASE_URL'' (world p);
          supabase_key = getenv E ''SUPABASE_SERVICE_ROLE_KEY'' (world p)
      in if \<not> truthy supabase_url \<or> \<not> truthy supabase_key then (False, p)
         else if \<not> create_client E (the supabase_url) (the supabase_key) (world p)
         then (False, p)
         else
           (let (t, p1) = now E p;
                row = [(''organization_id'', JStr (the (fg_org_id a))),
                       (''gateway_eui'', JStr (gateway_eui a)),
                       (''name'', JStr (name a)),
                       (''ttn_gateway_id'', JStr (gateway_id a)),
                       (''status'', JStr ''pending''),
                       (''ttn_registered_at'', JStr (isoformat t)),
                       (''description'',
                          JStr (''Provisioned via '' @ SCRIPT_VERSION @ '' | freq: ''
                                @ frequency_plan a @ '' | cluster: nam1''))];
                row' = (if truthy (fg_site_id a)
                        then row @ [(''site_id'', JStr (the (fg_site_id a)))] else row);
                (res, w') = upsert E row' (world p1)
            in (case res of None \<Rightarrow> False | Some b \<Rightarrow> b, p1\<lparr>world := w'\<rparr>)))"

text \<open>Step 7: store the gateway in the FrostGuard database when an organisation id is given.\<close>

definition step7 :: "'w env \<Rightarrow> args \<Rightarrow> 'w run \<Rightarrow> 'w run" where
  "step7 E a p =
     (if truthy (fg_org_id a) then
        (let (db_result, p1) = store_in_supabase E a p
         in if db_result
            then record_step E ''store_db'' True [Lit ''Gateway stored in FrostGuard DB''] None p1
            else record_step E ''store_db'' False
                   [Lit ''Failed to store in FrostGuard DB (check Supabase credentials)'']
                   None p1)
      else p)"

text \<open>\<^verbatim>\<open>_summary\<close>: build the log, write it next to the script and return it.\<close>

definition summary :: "'w env \<Rightarrow> string \<Rightarrow> 'w run \<Rightarrow> provision_log \<times> 'w run" where
  "summary E gid p =
     (let (t, p1) = now E p;
          log = \<lparr>log_gateway_id = gid,
                 log_script_version = SCRIPT_VERSION,
                 log_timestamp = isoformat t,
                 log_identity_server = IDENTITY_BASE_URL,
                 log_gateway_server = REGIONAL_BASE_URL,
                 log_gateway_server_address = NAM1_HOST,
                 log_steps = results p1,
                 log_lns_key_id = lns_key_id (creds p1),
                 log_cups_key_id = cups_key_id (creds p1)\<rparr>;
          log_path = Path (gid @ ''_provision_log.json'')
      in (log, p1\<lparr>written := written p1 @ [(log_path, Json log)]\<rparr>))"

text \<open>\<^verbatim>\<open>provision\<close>: the steps in order; a failed registration returns the summary at once.\<close>

definition provision :: "'w env \<Rightarrow> args \<Rightarrow> 'w run \<Rightarrow> provision_log \<times> 'w run" where
  "provision E a self =
     (let p0 = self\<lparr>creds := no_credentials\<rparr>;
          (existing, p1) = step1 E a p0;
          (continue, p2) = step2 E a existing p1
      in if \<not> continue then summary E (gateway_id a) p2
         else summary E (gateway_id a)
                (step7 E a (step6 E a (step5 E a (step4 E a (step3 E a p2))))))"

subsection \<open>Deprovisioning\<close>

datatype console_line =
    step_ok string fstring
  | step_fail string fstring
  | step_info string fstring
  | step_warn string fstring

text \<open>A deprovisioning run: the world, the exchanges made so far and the console lines printed.\<close>

record 'w session =
  session_world :: 'w
  session_exchanges :: "(call \<times> response) list"
  console :: "console_line list"

definition session_client :: "'w env \<Rightarrow> call \<Rightarrow> 'w session \<Rightarrow> response \<times> 'w session" where
  "session_client E c s =
     (let (r, w') = request E c (session_world s)
      in (r, s\<lparr>session_world := w', session_exchanges := session_exchanges s @ [(c, r)]\<rparr>))"

definition say :: "console_line \<Rightarrow> 'w session \<Rightarrow> 'w session" where
  "say l s = s\<lparr>console := console s @ [l]\<rparr>"

text \<open>Step 4 of \<^verbatim>\<open>deprovision_gateway\<close>: read the record again; the run then returns \<^verbatim>\<open>True\<close>.\<close>

definition deprovision_verify :: "'w env \<Rightarrow> string \<Rightarrow> 'w session \<Rightarrow> bool \<times> 'w session" where
  "deprovision_verify E gid s =
     (let (verify, s1) = session_client E (get_gateway gid) s
      in (True,
          if status verify = 404
          then say (step_ok ''Verify'' [Lit ''Gateway confirmed removed'']) s1
          else say (step_warn ''Verify''
                 [Lit ''Gateway may still exist (status: '', Str (JInt (status verify)),
                  Lit '')'']) s1))"

definition deprovision_gateway :: "'w env \<Rightarrow> string \<Rightarrow> bool \<Rightarrow> 'w \<Rightarrow> bool \<times> 'w session" where
  "deprovision_gateway E gid purge w =
     (let s0 = \<lparr>session_world = w, session_exchanges = [], console = []\<rparr>;
          (check, s1) = session_client E (get_gateway gid) s0
      in if \<not> ok check then
           (False,
            say (step_fail ''Check'' [Lit ''Gateway not found: '', Str (JObj (body check))]) s1)
         else
           (let s2 = say (step_ok ''Check''
                       [Lit ''Found gateway: '',
                        Str (dict_get (body check) ''name'' (JStr gid))]) s1;
                (delete, s3) = session_client E (delete_gateway gid) s2
            in if ok delete \<or> status delete = 200 then
                 (let s4 = say (step_ok ''Delete''
                             [Lit ''Gateway soft-deleted from Identity Server'']) s3
                  in if purge then
                       (let (purge_result, s5) = session_client E (purge_gateway gid) s4
                        in if ok purge_result \<or> status purge_result = 200 then
                             deprovision_verify E gid
                               (say (step_ok ''Purge''
                                  [Lit ''Gateway hard-deleted (EUI released for reuse)'']) s5)
                           else
                             (False,
                              say (step_fail ''Purge''
                                 [Lit ''Failed: '', Str (JObj (body purge_result))]) s5))
                     else deprovision_verify E gid s4)
               else
                 (False,
                  say (step_fail ''Delete'' [Lit ''Failed: '', Str (JObj (body delete))]) s3)))"

subsection \<open>The default gateway id in the three entry points\<close>

text \<open>
  The entry points work on what the operator supplies as gateway EUI, 16 hexadecimal
  digits. The string operations below are Python's on ASCII strings (\<open>ascii\<close>), where a
  byte is a character: \<^verbatim>\<open>str.lower\<close> and \<^verbatim>\<open>str.upper\<close> change the letters A-Z and
  a-z only, \<^verbatim>\<open>str.strip\<close> removes the ASCII whitespace characters, the slice
  \<^verbatim>\<open>s[-8:]\<close> is the last eight characters (all of \<open>s\<close> when it is shorter) and
  \<^verbatim>\<open>s.replace(c, "")\<close> removes a one-character \<open>c\<close>. On a string with a non-ASCII
  character Python works on Unicode characters (case mappings, whitespace such as U+00A0,
  slices by character) and these definitions do not follow it, so every statement about
  the entry points is made for ASCII strings.
\<close>

definition ascii :: "string \<Rightarrow> bool" where
  "ascii s = list_all (\<lambda>c. \<not> digit7 c) s"

definition lower_char :: "char \<Rightarrow> char" where
  "lower_char c =
     (case map_of (zip ''ABCDEFGHIJKLMNOPQRSTUVWXYZ'' ''abcdefghijklmnopqrstuvwxyz'') c of
        Some l \<Rightarrow> l
      | None \<Rightarrow> c)"

definition upper_char :: "char \<Rightarrow> char" where
  "upper_char c =
     (case map_of (zip ''abcdefghijklmnopqrstuvwxyz'' ''ABCDEFGHIJKLMNOPQRSTUVWXYZ'') c of
        Some u \<Rightarrow> u
      | None \<Rightarrow> c)"

definition lower :: "string \<Rightarrow> string" where
  "lower s = map lower_char s"

definition upper :: "string \<Rightarrow> string" where
  "upper s = map upper_char s"

definition is_space :: "char \<Rightarrow> bool" where
  "is_space c =
     (c \<in> set [CHR 0x09, CHR 0x0A, CHR 0x0B, CHR 0x0C, CHR 0x0D,
                CHR 0x1C, CHR 0x1D, CHR 0x1E, CHR 0x1F, CHR 0x20])"

definition strip :: "string \<Rightarrow> string" where
  "strip s = rev (dropWhile is_space (rev (dropWhile is_space s)))"

definition last8 :: "string \<Rightarrow> string" where
  "last8 s = drop (length s - 8) s"

definition remove_char :: "char \<Rightarrow> string \<Rightarrow> string" where
  "remove_char c s = filter (\<lambda>x. x \<noteq> c) s"

text \<open>
  \<^verbatim>\<open>interactive_provision\<close>: the EUI typed at the prompt is normalised and checked; the
  function returns without provisioning (\<open>None\<close>) when it is not 16 hexadecimal digits.
  \<open>answer\<close> is what is typed at the gateway-id prompt.
\<close>

definition interactive_eui :: "string \<Rightarrow> string" where
  "interactive_eui typed = remove_char CHR '' '' (remove_char CHR '':'' (upper (strip typed)))"

definition valid_eui :: "string \<Rightarrow> bool" where
  "valid_eui e = (length e = 16 \<and> list_all (\<lambda>c. c \<in> set ''0123456789ABCDEF'') e)"

definition interactive_gateway_id :: "string \<Rightarrow> string \<Rightarrow> string option" where
  "interactive_gateway_id typed answer =
     (let gateway_eui = interactive_eui typed
      in if \<not> valid_eui gateway_eui then None
         else
           (let default_id = ''fg-gw-'' @ lower (last8 gateway_eui)
            in Some (if strip answer \<noteq> [] then strip answer else default_id)))"

text \<open>
  \<^verbatim>\<open>batch_provision\<close>: \<^verbatim>\<open>gw.get("gateway_id", f"fg-gw-{gw['gateway_eui'][-8:].lower()}")\<close>
  for one entry \<open>gw\<close> of the JSON file. The default is computed before the lookup, so a
  missing or non-string \<^verbatim>\<open>gateway_eui\<close> raises.
\<close>

datatype error = KeyError string | NotAString

definition batch_gateway_id :: "jdict \<Rightarrow> error + jval" where
  "batch_gateway_id gw =
     (case map_of gw ''gateway_eui'' of
        None \<Rightarrow> Inl (KeyError ''gateway_eui'')
      | Some (JStr e) \<Rightarrow> Inr (dict_get gw ''gateway_id'' (JStr (''fg-gw-'' @ lower (last8 e))))
      | Some _ \<Rightarrow> Inl NotAString)"

text \<open>
  \<^verbatim>\<open>main\<close>, direct provisioning with flags:
  \<^verbatim>\<open>args.gateway_id or f"fg-gw-{args.gateway_eui[-8:].lower()}"\<close>.
\<close>

definition main_gateway_id :: "string option \<Rightarrow> string \<Rightarrow> string" where
  "main_gateway_id args_gateway_id args_gateway_eui =
     (if truthy args_gateway_id then the args_gateway_id
      else ''fg-gw-'' @ lower (last8 args_gateway_eui))"

subsection \<open>A model of the two servers\<close>

text \<open>
  Modelled from the spec: the identity registry and the radio-plane server are remote
  services, not code of the repository; the script only calls them. The registry is a store
  of gateway records by gateway id, with the operations the spec lists for it: reading
  returns the stored record (not found when there is none); registering stores the
  submitted record; an update replaces exactly the fields its field mask names and leaves
  all others untouched; deleting and purging remove the record. Whether a request is served
  at all is not up to the registry's state alone (credentials, network): the world carries
  a script with one verdict for each coming request, \<open>Serve x\<close> (answer it; \<open>x\<close> is
  the body of an answer that does not come from the store: a created key, connection
  statistics) or \<open>Refuse st b\<close> (fail with status \<open>st\<close> and body \<open>b\<close>, changing
  nothing). A request past the end of the script is served.
\<close>

datatype verdict = Serve jdict | Refuse int jdict

record ttn =
  gateways :: "(string \<times> jdict) list"
  script :: "verdict list"
  today :: datetime
  environ :: "(string \<times> string) list"
  database :: "bool option"

definition reply :: "int \<Rightarrow> jdict \<Rightarrow> response" where
  "reply st b = \<lparr>status = st, body = b, ok = (st < 400)\<rparr>"

definition not_found :: response where
  "not_found = reply 404 [(''code'', JInt 5), (''message'', JStr ''not found'')]"

text \<open>A field-mask update: every named path takes the submitted value, or is cleared.\<close>

definition set_fields :: "string list \<Rightarrow> jdict \<Rightarrow> jdict \<Rightarrow> jdict" where
  "set_fields paths submitted stored =
     fold (\<lambda>p r. case map_of submitted p of
                   Some v \<Rightarrow> AList.update p v r
                 | None \<Rightarrow> AList.delete p r) paths stored"

definition submitted_id :: "jdict \<Rightarrow> string option" where
  "submitted_id gateway =
     (case dict_get gateway ''ids'' JNull of
        JObj ids \<Rightarrow> (case dict_get ids ''gateway_id'' JNull of JStr g \<Rightarrow> Some g | _ \<Rightarrow> None)
      | _ \<Rightarrow> None)"

definition create_record ::
  "jdict \<Rightarrow> (string \<times> jdict) list \<Rightarrow> response \<times> (string \<times> jdict) list" where
  "create_record gateway reg =
     (case submitted_id gateway of
        None \<Rightarrow> (reply 400 [(''message'', JStr ''invalid identifiers'')], reg)
      | Some g \<Rightarrow>
          (case map_of reg g of
             Some _ \<Rightarrow> (reply 409 [(''message'', JStr ''already exists'')], reg)
           | None \<Rightarrow> (reply 200 gateway, AList.update g gateway reg)))"

fun serve :: "call \<Rightarrow> jdict \<Rightarrow> (string \<times> jdict) list \<Rightarrow> response \<times> (string \<times> jdict) list" where
  "serve (get_gateway g) x reg =
     (case map_of reg g of Some r \<Rightarrow> (reply 200 r, reg) | None \<Rightarrow> (not_found, reg))"
| "serve (register_gateway_for_user u gateway) x reg = create_record gateway reg"
| "serve (register_gateway_for_org u gateway) x reg = create_record gateway reg"
| "serve (update_gateway g gateway paths) x reg =
     (case map_of reg g of
        Some r \<Rightarrow>
          (let r' = set_fields paths
                      (AList.update ''ids'' (JObj [(''gateway_id'', JStr g)]) gateway) r
           in (reply 200 r', AList.update g r' reg))
      | None \<Rightarrow> (not_found, reg))"
| "serve (delete_gateway g) x reg =
     (case map_of reg g of
        Some r \<Rightarrow> (reply 200 [], AList.delete g reg)
      | None \<Rightarrow> (not_found, reg))"
| "serve (purge_gateway g) x reg = (reply 200 [], AList.delete g reg)"
| "serve (create_gateway_api_key g key_name rights) x reg =
     (case map_of reg g of Some r \<Rightarrow> (reply 200 x, reg) | None \<Rightarrow> (not_found, reg))"
| "serve (list_gateway_api_keys g) x reg =
     (case map_of reg g of Some r \<Rightarrow> (reply 200 x, reg) | None \<Rightarrow> (not_found, reg))"
| "serve (get_gateway_connection_stats g) x reg = (reply 200 x, reg)"

definition ttn_request :: "call \<Rightarrow> ttn \<Rightarrow> response \<times> ttn" where
  "ttn_request c w =
     (case script w of
        [] \<Rightarrow> (let (r, reg) = serve c [] (gateways w) in (r, w\<lparr>gateways := reg\<rparr>))
      | Serve x # rest \<Rightarrow>
          (let (r, reg) = serve c x (gateways w) in (r, w\<lparr>gateways := reg, script := rest\<rparr>))
      | Refuse st b # rest \<Rightarrow> (\<lparr>status = st, body = b, ok = False\<rparr>, w\<lparr>script := rest\<rparr>))"

definition TTN :: "ttn env" where
  "TTN =
     \<lparr>request = ttn_request,
      utcnow = (\<lambda>w. (today w, w)),
      getenv = (\<lambda>k w. map_of (environ w) k),
      create_client = (\<lambda>u k w. True),
      upsert = (\<lambda>row w. (database w, w))\<rparr>"

text \<open>The pointer of the stored record of a gateway, if the gateway is registered and has one.\<close>

definition server_pointer :: "ttn \<Rightarrow> string \<Rightarrow> jval option" where
  "server_pointer w g =
     (case map_of (gateways w) g of
        None \<Rightarrow> None
      | Some r \<Rightarrow> map_of r ''gateway_server_address'')"

subsection \<open>Observations on a run\<close>

text \<open>The calls of a run in the order they were made, and the outcome of each logged step.\<close>

definition calls :: "'w run \<Rightarrow> call list" where
  "calls p = map fst (exchanges p)"

definition outcomes :: "provision_log \<Rightarrow> (string \<times> bool) list" where
  "outcomes l = map (\<lambda>s. (step s, success s)) (log_steps l)"

text \<open>A call whose field mask names the pointer field.\<close>

definition touches_pointer :: "call \<Rightarrow> bool" where
  "touches_pointer c = (''gateway_server_address'' \<in> set (field_mask_of c))"

text \<open>
  The responses a run started in world \<open>w\<close> gets to its existence query, to the
  registration call that follows a query that was not ok, and to the pointer update that
  follows a query that was ok (\<^verbatim>\<open>_record\<close> reads the clock in between).
\<close>

definition existing_response :: "'w env \<Rightarrow> args \<Rightarrow> 'w \<Rightarrow> response" where
  "existing_response E a w = fst (request E (get_gateway (gateway_id a)) w)"

definition registration_response :: "'w env \<Rightarrow> args \<Rightarrow> 'w \<Rightarrow> response" where
  "registration_response E a w =
     fst (request E (register_call a) (snd (request E (get_gateway (gateway_id a)) w)))"

definition pointer_update_response :: "'w env \<Rightarrow> args \<Rightarrow> 'w \<Rightarrow> response" where
  "pointer_update_response E a w =
     fst (request E (pointer_update_call a)
            (snd (utcnow E (snd (request E (get_gateway (gateway_id a)) w)))))"

text \<open>The reconcile phase succeeded: the log holds no failed registration or pointer update.\<close>

definition reconciled :: "provision_log \<Rightarrow> bool" where
  "reconciled l =
     (filter (\<lambda>s. (step s = ''register'' \<or> step s = ''update_server_address'') \<and> \<not> success s)
        (log_steps l) = [])"

text \<open>
  The same environment, except that every key the registry issues carries the secret
  \<open>secret c\<close> chosen for the call \<open>c\<close> that created it: the \<^verbatim>\<open>key\<close> field of each ok
  answer to \<^verbatim>\<open>create_gateway_api_key\<close> is replaced, nothing else.
\<close>

definition reissue :: "(call \<Rightarrow> jval) \<Rightarrow> 'w env \<Rightarrow> 'w env" where
  "reissue secret E =
     E\<lparr>request := (\<lambda>c w.
          let (r, w') = request E c w
          in (if is_create_key c \<and> ok r
              then r\<lparr>body := AList.update ''key'' (secret c) (body r)\<rparr>
              else r, w'))\<rparr>"

text \<open>
  A deprovisioning run reports a failure: it returns \<^verbatim>\<open>False\<close> and its last console line
  comes from \<^verbatim>\<open>step_fail\<close>.
\<close>

fun is_step_fail :: "console_line \<Rightarrow> bool" where
  "is_step_fail (step_fail _ _) = True"
| "is_step_fail _ = False"

definition reported_as_failure :: "bool \<times> 'w session \<Rightarrow> bool" where
  "reported_as_failure out =
     (\<not> fst out \<and> console (snd out) \<noteq> [] \<and> is_step_fail (last (console (snd out))))"

subsection \<open>Concrete runs\<close>

text \<open>
  The gateway of the script's usage example, provisioned with the defaults of the command
  line, and worlds to run it in: a registry content and a script of verdicts.
\<close>

definition walk_in_cooler :: args where
  "walk_in_cooler =
     \<lparr>gateway_id = ''fg-gw-a00009ef'',
      gateway_eui = ''00800000A00009EF'',
      name = ''Walk-in Cooler GW'',
      owner_id = ''my-ttn-user'',
      owner_type = ''user'',
      frequency_plan = DEFAULT_FREQUENCY_PLAN,
      latitude = None,
      longitude = None,
      altitude = Some 0,
      location_public = False,
      status_public = False,
      enforce_duty_cycle = True,
      require_authenticated = True,
      generate_lns_key = True,
      generate_cups_key = False,
      output_dir = ''.'',
      fg_org_id = None,
      fg_site_id = None\<rparr>"

definition world_with :: "(string \<times> jdict) list \<Rightarrow> verdict list \<Rightarrow> ttn" where
  "world_with reg sc =
     \<lparr>gateways = reg,
      script = sc,
      today = \<lparr>isoformat = ''2026-02-11T12:00:00+00:00'', strftime_Ymd = ''20260211''\<rparr>,
      environ = [],
      database = None\<rparr>"

text \<open>The record of the gateway with its pointer at the wrong cluster.\<close>

definition drifted_record :: jdict where
  "drifted_record =
     AList.update ''gateway_server_address'' (JStr ''eu1.cloud.thethings.network'')
       (gateway_payload walk_in_cooler)"

definition issued_key :: jdict where
  "issued_key = [(''id'', JStr ''lns-key-1''), (''key'', JStr ''NNSXS.SECRET'')]"

text \<open>
  The responses a deprovisioning run started in world \<open>w\<close> gets to its existence query,
  to the delete that follows an ok query, and to the purge that follows a successful delete.
\<close>

definition check_response :: "'w env \<Rightarrow> string \<Rightarrow> 'w \<Rightarrow> response" where
  "check_response E g w = fst (request E (get_gateway g) w)"

definition delete_response :: "'w env \<Rightarrow> string \<Rightarrow> 'w \<Rightarrow> response" where
  "delete_response E g w =
     fst (request E (delete_gateway g) (snd (request E (get_gateway g) w)))"

definition purge_response :: "'w env \<Rightarrow> string \<Rightarrow> 'w \<Rightarrow> response" where
  "purge_response E g w =
     fst (request E (purge_gateway g)
            (snd (request E (delete_gateway g) (snd (request E (get_gateway g) w)))))"

text \<open>The gateway of the usage example with no key requested.\<close>

definition bare_cooler :: args where
  "bare_cooler = walk_in_cooler\<lparr>generate_lns_key := False\<rparr>"

text \<open>
  Two run states agree on what \<^verbatim>\<open>_summary\<close> puts into the log: the world, the results and
  the two key identifiers.
\<close>

definition agree :: "'w run \<Rightarrow> 'w run \<Rightarrow> bool" where
  "agree p q =
     (world p = world q \<and> results p = results q
      \<and> lns_key_id (creds p) = lns_key_id (creds q)
      \<and> cups_key_id (creds p) = cups_key_id (creds q))"

section \<open>Properties\<close>

subsection \<open>What each operation does to the run state\<close>

lemma client_fst: "fst (client E c p) = fst (request E c (world p))"
  by (simp add: client_def split_def Let_def)

lemma client_snd:
  "snd (client E c p) = p\<lparr>world := snd (request E c (world p)),
     exchanges := exchanges p @ [(c, fst (request E c (world p)))]\<rparr>"
  by (simp add: client_def split_def Let_def)

lemma now_fst: "fst (now E p) = fst (utcnow E (world p))"
  by (simp add: now_def split_def Let_def)

lemma now_snd: "snd (now E p) = p\<lparr>world := snd (utcnow E (world p))\<rparr>"
  by (simp add: now_def split_def Let_def)

lemma record_step_eq:
  "record_step E stp s msg d p =
     p\<lparr>world := snd (utcnow E (world p)),
       results := results p @
         [\<lparr>step = stp, success = s, message = msg,
           data = (case d of None \<Rightarrow> [] | Some x \<Rightarrow> x),
           timestamp = isoformat (fst (utcnow E (world p)))\<rparr>]\<rparr>"
  by (simp add: record_step_def now_def split_def Let_def)

lemmas run_simps = client_fst client_snd now_fst now_snd record_step_eq split_def Let_def

text \<open>The calls that steps 3 to 7 and the summary add.\<close>

lemma step3_calls:
  "calls (step3 E a p) = calls p @
     (case (latitude a, longitude a) of
        (Some lat, Some lon) \<Rightarrow>
           [update_gateway (gateway_id a) (location_payload lat lon (altitude a)) [''antennas'']]
      | _ \<Rightarrow> [])"
  by (simp add: step3_def calls_def run_simps split: option.splits)

lemma step4_calls:
  "calls (step4 E a p) = calls p @
     (if generate_lns_key a
      then [create_gateway_api_key (gateway_id a)
              (''FrostGuard LNS Key - '' @ strftime_Ymd (fst (utcnow E (world p))))
              [''RIGHT_GATEWAY_LINK'']]
      else [])"
  by (simp add: step4_def calls_def run_simps)

lemma step5_calls:
  "calls (step5 E a p) = calls p @
     (if generate_cups_key a
      then [create_gateway_api_key (gateway_id a)
              (''FrostGuard CUPS Key - '' @ strftime_Ymd (fst (utcnow E (world p))))
              cups_rights]
      else [])"
  by (simp add: step5_def calls_def run_simps)

lemma step6_calls:
  "calls (step6 E a p) = calls p @ [get_gateway_connection_stats (gateway_id a)]"
  by (simp add: step6_def calls_def run_simps)

lemma store_in_supabase_exchanges:
  "exchanges (snd (store_in_supabase E a p)) = exchanges p"
  by (simp add: store_in_supabase_def run_simps)

lemma step7_calls: "calls (step7 E a p) = calls p"
  by (simp add: step7_def calls_def run_simps store_in_supabase_exchanges)

lemma summary_calls: "calls (snd (summary E g p)) = calls p"
  by (simp add: summary_def calls_def run_simps)

lemma later_steps_calls:
  "calls (step7 E a (step6 E a (step5 E a (step4 E a (step3 E a p))))) =
     calls p
     @ (case (latitude a, longitude a) of
          (Some lat, Some lon) \<Rightarrow>
            [update_gateway (gateway_id a) (location_payload lat lon (altitude a)) [''antennas'']]
        | _ \<Rightarrow> [])
     @ (if generate_lns_key a
        then [create_gateway_api_key (gateway_id a)
                (''FrostGuard LNS Key - ''
                 @ strftime_Ymd (fst (utcnow E (world (step3 E a p)))))
                [''RIGHT_GATEWAY_LINK'']]
        else [])
     @ (if generate_cups_key a
        then [create_gateway_api_key (gateway_id a)
                (''FrostGuard CUPS Key - ''
                 @ strftime_Ymd (fst (utcnow E (world (step4 E a (step3 E a p))))))
                cups_rights]
        else [])
     @ [get_gateway_connection_stats (gateway_id a)]"
  by (simp add: step7_calls step6_calls step5_calls step4_calls step3_calls)

text \<open>The results only grow: every step appends to \<^verbatim>\<open>self.results\<close>.\<close>

lemma step3_results: "\<exists>ys. results (step3 E a p) = results p @ ys"
  by (simp add: step3_def run_simps split: option.splits)

lemma step4_results: "\<exists>ys. results (step4 E a p) = results p @ ys"
  by (simp add: step4_def run_simps)

lemma step5_results: "\<exists>ys. results (step5 E a p) = results p @ ys"
  by (simp add: step5_def run_simps)

lemma step6_results: "\<exists>ys. results (step6 E a p) = results p @ ys"
  by (simp add: step6_def run_simps)

lemma store_in_supabase_results: "results (snd (store_in_supabase E a p)) = results p"
  by (simp add: store_in_supabase_def run_simps)

lemma step7_results: "\<exists>ys. results (step7 E a p) = results p @ ys"
  by (simp add: step7_def run_simps store_in_supabase_results)

lemma later_steps_results:
  "\<exists>ys. results (step7 E a (step6 E a (step5 E a (step4 E a (step3 E a p))))) = results p @ ys"
proof -
  obtain y3 where "results (step3 E a p) = results p @ y3"
    using step3_results by blast
  moreover obtain y4 where "results (step4 E a (step3 E a p)) = results (step3 E a p) @ y4"
    using step4_results by blast
  moreover obtain y5 where
    "results (step5 E a (step4 E a (step3 E a p))) = results (step4 E a (step3 E a p)) @ y5"
    using step5_results by blast
  moreover obtain y6 where
    "results (step6 E a (step5 E a (step4 E a (step3 E a p)))) =
       results (step5 E a (step4 E a (step3 E a p))) @ y6"
    using step6_results by blast
  moreover obtain y7 where
    "results (step7 E a (step6 E a (step5 E a (step4 E a (step3 E a p))))) =
       results (step6 E a (step5 E a (step4 E a (step3 E a p)))) @ y7"
    using step7_results by blast
  ultimately show ?thesis by simp
qed

lemma summary_log_steps: "log_steps (fst (summary E g p)) = results p"
  by (simp add: summary_def run_simps)

text \<open>Steps 1 and 2 decide whether the run goes on; the rest of \<^verbatim>\<open>provision\<close> follows.\<close>

lemma step1_fst:
  "fst (step1 E a ((GatewayProvisioner w)\<lparr>creds := no_credentials\<rparr>)) = existing_response E a w"
  by (simp add: step1_def existing_response_def GatewayProvisioner_def run_simps)

lemma provision_continued:
  assumes "fst (step2 E a (existing_response E a w)
             (snd (step1 E a ((GatewayProvisioner w)\<lparr>creds := no_credentials\<rparr>))))"
  shows "provision E a (GatewayProvisioner w) =
           summary E (gateway_id a)
             (step7 E a (step6 E a (step5 E a (step4 E a (step3 E a
                (snd (step2 E a (existing_response E a w)
                   (snd (step1 E a ((GatewayProvisioner w)\<lparr>creds := no_credentials\<rparr>))))))))))"
  using assms by (simp add: provision_def split_def Let_def step1_fst)

lemmas ttn_simps = TTN_def ttn_request_def world_with_def reply_def not_found_def
  create_record_def submitted_id_def set_fields_def dict_get_def

lemmas example_simps = walk_in_cooler_def drifted_record_def issued_key_def
  gateway_payload_def register_call_def pointer_update_call_def
  existing_response_def registration_response_def pointer_update_response_def
  NAM1_HOST_def DEFAULT_FREQUENCY_PLAN_def

subsection \<open>Reconciliation\<close>

text \<open>
  Claim C3. If the gateway record exists and its \<^verbatim>\<open>gateway_server_address\<close> differs from
  the fixed host, \<^verbatim>\<open>provision\<close> issues exactly one update call whose field mask names the
  pointer; that call's mask is the pointer field alone, and its payload on the wire carries
  the pointer, the ids and that mask, nothing else. No registration call is made. The
  outcome of the update is recorded as the step \<^verbatim>\<open>update_server_address\<close> with the
  response's ok flag, and whatever that flag is the run goes on: the location update is
  issued when both coordinates are given, each requested key is asked for, and the
  verification query is made.
\<close>

theorem drift_correction:
  assumes "ok (existing_response E a w)"
      and "dict_get (body (existing_response E a w)) ''gateway_server_address'' (JStr '''')
             \<noteq> JStr NAM1_HOST"
  shows "filter touches_pointer (calls (snd (provision E a (GatewayProvisioner w)))) =
           [pointer_update_call a]
       \<and> field_mask_of (pointer_update_call a) = [''gateway_server_address'']
       \<and> payload (wire (pointer_update_call a)) =
           Some (JObj
             [(''gateway'', JObj [(''gateway_server_address'', JStr NAM1_HOST),
                                  (''ids'', JObj [(''gateway_id'', JStr (gateway_id a))])]),
              (''field_mask'', JObj [(''paths'', JArr [JStr ''gateway_server_address''])])])
       \<and> filter is_register (calls (snd (provision E a (GatewayProvisioner w)))) = []
       \<and> (''update_server_address'', ok (pointer_update_response E a w))
           \<in> set (outcomes (fst (provision E a (GatewayProvisioner w))))
       \<and> length (filter (\<lambda>c. field_mask_of c = [''antennas''])
                   (calls (snd (provision E a (GatewayProvisioner w))))) =
           (if latitude a \<noteq> None \<and> longitude a \<noteq> None then 1 else 0)
       \<and> length (filter is_create_key (calls (snd (provision E a (GatewayProvisioner w))))) =
           (if generate_lns_key a then 1 else 0) + (if generate_cups_key a then 1 else 0)
       \<and> filter is_stats (calls (snd (provision E a (GatewayProvisioner w)))) =
           [get_gateway_connection_stats (gateway_id a)]"
proof -
  let ?p1 = "snd (step1 E a ((GatewayProvisioner w)\<lparr>creds := no_credentials\<rparr>))"
  let ?p2 = "snd (step2 E a (existing_response E a w) ?p1)"
  let ?rest = "step7 E a (step6 E a (step5 E a (step4 E a (step3 E a ?p2))))"
  have cont: "fst (step2 E a (existing_response E a w) ?p1)"
    using assms by (simp add: step2_def run_simps)
  have run: "provision E a (GatewayProvisioner w) = summary E (gateway_id a) ?rest"
    using cont by (rule provision_continued)
  have c2: "calls ?p2 = [get_gateway (gateway_id a), pointer_update_call a]"
    using assms
    by (simp add: step1_def step2_def calls_def GatewayProvisioner_def existing_response_def
        run_simps)
  have r2: "(''update_server_address'', ok (pointer_update_response E a w))
              \<in> set (map (\<lambda>s. (step s, success s)) (results ?p2))"
    using assms
    by (simp add: step1_def step2_def GatewayProvisioner_def existing_response_def
        pointer_update_response_def run_simps)
  obtain ys where ys: "results ?rest = results ?p2 @ ys"
    using later_steps_results by blast
  have out: "(''update_server_address'', ok (pointer_update_response E a w))
               \<in> set (outcomes (fst (provision E a (GatewayProvisioner w))))"
    using r2 by (simp add: run outcomes_def summary_log_steps ys)
  have cs: "calls (snd (provision E a (GatewayProvisioner w))) = calls ?rest"
    by (simp add: run summary_calls)
  show ?thesis
    unfolding cs later_steps_calls c2 using out
    by (simp add: touches_pointer_def pointer_update_call_def cups_rights_def
        split: option.splits)
qed

theorem drift_correction_witness:
  "ok (existing_response TTN walk_in_cooler
         (world_with [(''fg-gw-a00009ef'', drifted_record)] [Serve [], Refuse 500 []]))
   \<and> dict_get (body (existing_response TTN walk_in_cooler
         (world_with [(''fg-gw-a00009ef'', drifted_record)] [Serve [], Refuse 500 []])))
        ''gateway_server_address'' (JStr '''') = JStr ''eu1.cloud.thethings.network''
   \<and> filter touches_pointer (calls (snd (provision TTN walk_in_cooler (GatewayProvisioner
         (world_with [(''fg-gw-a00009ef'', drifted_record)] [Serve [], Refuse 500 []]))))) =
        [update_gateway ''fg-gw-a00009ef''
           [(''gateway_server_address'', JStr ''nam1.cloud.thethings.network'')]
           [''gateway_server_address'']]
   \<and> filter is_register (calls (snd (provision TTN walk_in_cooler (GatewayProvisioner
         (world_with [(''fg-gw-a00009ef'', drifted_record)] [Serve [], Refuse 500 []]))))) = []
   \<and> (''update_server_address'', False)
        \<in> set (outcomes (fst (provision TTN walk_in_cooler (GatewayProvisioner
         (world_with [(''fg-gw-a00009ef'', drifted_record)] [Serve [], Refuse 500 []])))))
   \<and> length (filter is_create_key (calls (snd (provision TTN walk_in_cooler (GatewayProvisioner
         (world_with [(''fg-gw-a00009ef'', drifted_record)] [Serve [], Refuse 500 []])))))) = 1"
proof -
  let ?w = "world_with [(''fg-gw-a00009ef'', drifted_record)] [Serve [], Refuse 500 []]"
  have h1: "ok (existing_response TTN walk_in_cooler ?w)"
    by (simp add: ttn_simps example_simps)
  have b: "dict_get (body (existing_response TTN walk_in_cooler ?w))
             ''gateway_server_address'' (JStr '''') = JStr ''eu1.cloud.thethings.network''"
    by (simp add: ttn_simps example_simps)
  have h2: "dict_get (body (existing_response TTN walk_in_cooler ?w))
              ''gateway_server_address'' (JStr '''') \<noteq> JStr NAM1_HOST"
    unfolding b by (simp add: NAM1_HOST_def)
  have r: "\<not> ok (pointer_update_response TTN walk_in_cooler ?w)"
    by (simp add: ttn_simps example_simps)
  show ?thesis
    using drift_correction [OF h1 h2] h1 b r
    by (simp add: pointer_update_call_def NAM1_HOST_def walk_in_cooler_def)
qed

subsection \<open>Failed registration\<close>

text \<open>
  Claim C4. If the existence query is not ok (the gateway is absent: a 404 is such a
  response) and the registration call fails, the run stops right after that step: the only
  exchanges are the query and the registration, the run log holds exactly one step,
  \<^verbatim>\<open>register\<close>, failed; the environment is touched by nothing else than these two
  requests and the two clock readings of \<^verbatim>\<open>_record\<close> and \<^verbatim>\<open>_summary\<close> (so no location,
  credential, verification or database step is attempted); and the summary is still built
  from the results, written to the log file and returned.
\<close>

theorem registration_failure_halts:
  assumes "\<not> ok (existing_response E a w)"
      and "\<not> ok (registration_response E a w)"
  shows "exchanges (snd (provision E a (GatewayProvisioner w))) =
           [(get_gateway (gateway_id a), existing_response E a w),
            (register_call a, registration_response E a w)]
       \<and> outcomes (fst (provision E a (GatewayProvisioner w))) = [(''register'', False)]
       \<and> log_steps (fst (provision E a (GatewayProvisioner w))) =
           results (snd (provision E a (GatewayProvisioner w)))
       \<and> written (snd (provision E a (GatewayProvisioner w))) =
           [(Path (gateway_id a @ ''_provision_log.json''),
             Json (fst (provision E a (GatewayProvisioner w))))]
       \<and> world (snd (provision E a (GatewayProvisioner w))) =
           snd (utcnow E (snd (utcnow E (snd (request E (register_call a)
             (snd (request E (get_gateway (gateway_id a)) w)))))))"
  using assms
  by (simp add: provision_def step1_def step2_def summary_def GatewayProvisioner_def
      existing_response_def registration_response_def outcomes_def run_simps)

theorem registration_failure_halts_witness:
  "status (existing_response TTN walk_in_cooler
     (world_with [] [Serve [], Refuse 403 [(''message'', JStr ''forbidden'')]])) = 404
   \<and> \<not> ok (existing_response TTN walk_in_cooler
     (world_with [] [Serve [], Refuse 403 [(''message'', JStr ''forbidden'')]]))
   \<and> \<not> ok (registration_response TTN walk_in_cooler
     (world_with [] [Serve [], Refuse 403 [(''message'', JStr ''forbidden'')]]))
   \<and> calls (snd (provision TTN walk_in_cooler (GatewayProvisioner
     (world_with [] [Serve [], Refuse 403 [(''message'', JStr ''forbidden'')]])))) =
       [get_gateway ''fg-gw-a00009ef'', register_call walk_in_cooler]
   \<and> outcomes (fst (provision TTN walk_in_cooler (GatewayProvisioner
     (world_with [] [Serve [], Refuse 403 [(''message'', JStr ''forbidden'')]])))) =
       [(''register'', False)]"
proof -
  let ?w = "world_with [] [Serve [], Refuse 403 [(''message'', JStr ''forbidden'')]]"
  have s: "status (existing_response TTN walk_in_cooler ?w) = 404"
    by (simp add: ttn_simps example_simps)
  have h1: "\<not> ok (existing_response TTN walk_in_cooler ?w)"
    by (simp add: ttn_simps example_simps)
  have h2: "\<not> ok (registration_response TTN walk_in_cooler ?w)"
    by (simp add: ttn_simps example_simps)
  show ?thesis
    using registration_failure_halts [OF h1 h2] s h1 h2
    by (simp add: calls_def walk_in_cooler_def)
qed

text \<open>The outcome each step logs.\<close>

lemma step3_outcomes:
  "map (\<lambda>s. (step s, success s)) (results (step3 E a p)) =
     map (\<lambda>s. (step s, success s)) (results p) @
     (case (latitude a, longitude a) of
        (Some lat, Some lon) \<Rightarrow>
          [(''set_location'',
            ok (fst (request E (update_gateway (gateway_id a)
                  (location_payload lat lon (altitude a)) [''antennas'']) (world p))))]
      | _ \<Rightarrow> [])"
  by (simp add: step3_def run_simps split: option.splits)

lemma step4_outcomes:
  "map (\<lambda>s. (step s, success s)) (results (step4 E a p)) =
     map (\<lambda>s. (step s, success s)) (results p) @
     (if generate_lns_key a
      then [(''create_lns_key'',
             ok (fst (request E (create_gateway_api_key (gateway_id a)
                   (''FrostGuard LNS Key - '' @ strftime_Ymd (fst (utcnow E (world p))))
                   [''RIGHT_GATEWAY_LINK'']) (snd (utcnow E (world p))))))]
      else [])"
  by (simp add: step4_def run_simps)

lemma step5_outcomes:
  "map (\<lambda>s. (step s, success s)) (results (step5 E a p)) =
     map (\<lambda>s. (step s, success s)) (results p) @
     (if generate_cups_key a
      then [(''create_cups_key'',
             ok (fst (request E (create_gateway_api_key (gateway_id a)
                   (''FrostGuard CUPS Key - '' @ strftime_Ymd (fst (utcnow E (world p))))
                   cups_rights) (snd (utcnow E (world p))))))]
      else [])"
  by (simp add: step5_def run_simps)

lemma step6_exchanges:
  "exchanges (step6 E a p) = exchanges p @
     [(get_gateway_connection_stats (gateway_id a),
       fst (request E (get_gateway_connection_stats (gateway_id a)) (world p)))]"
  by (simp add: step6_def run_simps)

lemma step6_outcomes:
  "map (\<lambda>s. (step s, success s)) (results (step6 E a p)) =
     map (\<lambda>s. (step s, success s)) (results p) @
     [(''verify_nam1'',
       ok (fst (request E (get_gateway_connection_stats (gateway_id a)) (world p)))
       \<or> status (fst (request E (get_gateway_connection_stats (gateway_id a)) (world p))) = 404)]"
  by (simp add: step6_def run_simps)

lemma step7_exchanges: "exchanges (step7 E a p) = exchanges p"
  by (simp add: step7_def run_simps store_in_supabase_exchanges)

lemma step7_outcomes:
  "map (\<lambda>s. (step s, success s)) (results (step7 E a p)) =
     map (\<lambda>s. (step s, success s)) (results p) @
     (if truthy (fg_org_id a) then [(''store_db'', fst (store_in_supabase E a p))] else [])"
  by (simp add: step7_def run_simps store_in_supabase_results)

lemma summary_exchanges: "exchanges (snd (summary E g p)) = exchanges p"
  by (simp add: summary_def run_simps)

lemma summary_results: "results (snd (summary E g p)) = results p"
  by (simp add: summary_def run_simps)

lemma summary_written:
  "written (snd (summary E g p)) =
     written p @ [(Path (g @ ''_provision_log.json''), Json (fst (summary E g p)))]"
  by (simp add: summary_def run_simps)

text \<open>Steps 1 and 2 on a fresh provisioner.\<close>

lemma reconcile_calls:
  "list_all (\<lambda>c. c = get_gateway (gateway_id a) \<or> c = register_call a
                 \<or> c = pointer_update_call a)
     (calls (snd (step2 E a (existing_response E a w)
        (snd (step1 E a ((GatewayProvisioner w)\<lparr>creds := no_credentials\<rparr>))))))"
  by (simp add: step1_def step2_def calls_def GatewayProvisioner_def run_simps)

lemma reconcile_outcomes:
  "list_all (\<lambda>x. fst x = ''check_existing'' \<or> fst x = ''register''
                 \<or> fst x = ''update_server_address'')
     (map (\<lambda>s. (step s, success s))
        (results (snd (step2 E a (existing_response E a w)
           (snd (step1 E a ((GatewayProvisioner w)\<lparr>creds := no_credentials\<rparr>)))))))"
  by (simp add: step1_def step2_def GatewayProvisioner_def run_simps)

lemma provision_halted:
  assumes "\<not> fst (step2 E a (existing_response E a w)
             (snd (step1 E a ((GatewayProvisioner w)\<lparr>creds := no_credentials\<rparr>))))"
  shows "calls (snd (provision E a (GatewayProvisioner w))) =
           [get_gateway (gateway_id a), register_call a]"
proof -
  have "\<not> ok (existing_response E a w)"
    using assms by (simp add: step2_def run_simps split: if_splits)
  then show ?thesis
    using assms
    by (simp add: provision_def step1_def step2_def summary_def GatewayProvisioner_def
        existing_response_def calls_def run_simps split: if_splits)
qed

lemma register_call_kind:
  "is_register (register_call a)" "\<not> is_update (register_call a)"
  "\<not> is_stats (register_call a)" "\<not> is_delete (register_call a)"
  "\<not> is_purge (register_call a)" "\<not> is_create_key (register_call a)"
  "field_mask_of (register_call a) = []"
  by (simp_all add: register_call_def)

lemma filter_none: "list_all P xs \<Longrightarrow> (\<And>x. P x \<Longrightarrow> \<not> Q x) \<Longrightarrow> filter Q xs = []"
  by (induction xs) auto

subsection \<open>Verification\<close>

text \<open>
  Claim C9. When a run of \<^verbatim>\<open>provision\<close> makes its verification query and gets the
  response \<open>r\<close>, the step \<^verbatim>\<open>verify_nam1\<close> is logged once, as a success exactly when
  \<open>r\<close> is ok or has status 404 (not yet connected), as a failure for every other
  response. Either way the query is the last exchange of the run, no delete or purge call
  is made anywhere in it (nothing committed to the registry is undone), and the run
  completes: the log returned holds the results and is the last file written.
\<close>

theorem verification_outcome:
  assumes "(c, r) \<in> set (exchanges (snd (provision E a (GatewayProvisioner w))))"
      and "is_stats c"
  shows "c = get_gateway_connection_stats (gateway_id a)
       \<and> (\<exists>pre. exchanges (snd (provision E a (GatewayProvisioner w))) = pre @ [(c, r)]
                \<and> filter is_stats (map fst pre) = [])
       \<and> filter (\<lambda>x. fst x = ''verify_nam1'')
            (outcomes (fst (provision E a (GatewayProvisioner w)))) =
           [(''verify_nam1'', ok r \<or> status r = 404)]
       \<and> filter (\<lambda>c. is_delete c \<or> is_purge c)
            (calls (snd (provision E a (GatewayProvisioner w)))) = []
       \<and> log_steps (fst (provision E a (GatewayProvisioner w))) =
           results (snd (provision E a (GatewayProvisioner w)))
       \<and> last (written (snd (provision E a (GatewayProvisioner w)))) =
           (Path (gateway_id a @ ''_provision_log.json''),
            Json (fst (provision E a (GatewayProvisioner w))))"
proof -
  let ?run = "provision E a (GatewayProvisioner w)"
  let ?p2 = "snd (step2 E a (existing_response E a w)
               (snd (step1 E a ((GatewayProvisioner w)\<lparr>creds := no_credentials\<rparr>))))"
  let ?q = "step5 E a (step4 E a (step3 E a ?p2))"
  let ?v = "get_gateway_connection_stats (gateway_id a)"
  let ?r6 = "fst (request E ?v (world ?q))"
  have mem: "c \<in> set (calls (snd ?run))"
    using assms(1) by (force simp: calls_def)
  have cont: "fst (step2 E a (existing_response E a w)
                (snd (step1 E a ((GatewayProvisioner w)\<lparr>creds := no_credentials\<rparr>))))"
  proof (rule ccontr)
    assume "\<not> ?thesis"
    then have "calls (snd ?run) = [get_gateway (gateway_id a), register_call a]"
      by (rule provision_halted)
    with mem assms(2) show False
      by (auto simp: register_call_kind)
  qed
  have run: "?run = summary E (gateway_id a) (step7 E a (step6 E a ?q))"
    using cont by (rule provision_continued)
  have ex: "exchanges (snd ?run) = exchanges ?q @ [(?v, ?r6)]"
    by (simp add: run summary_exchanges step7_exchanges step6_exchanges)
  have no2: "filter is_stats (calls ?p2) = []"
    by (rule filter_none [OF reconcile_calls])
       (auto simp: register_call_kind pointer_update_call_def)
  have nd2: "filter (\<lambda>c. is_delete c \<or> is_purge c) (calls ?p2) = []"
    by (rule filter_none [OF reconcile_calls])
       (auto simp: register_call_kind pointer_update_call_def)
  have noq: "filter is_stats (calls ?q) = []"
    by (simp add: step5_calls step4_calls step3_calls no2 split: option.splits)
  have ndq: "filter (\<lambda>c. is_delete c \<or> is_purge c) (calls ?q) = []"
    by (simp add: step5_calls step4_calls step3_calls nd2 split: option.splits)
  have "c \<notin> set (calls ?q)"
    using noq assms(2) by (auto simp: filter_empty_conv)
  then have "(c, r) \<notin> set (exchanges ?q)"
    by (force simp: calls_def)
  with assms(1) have cr: "(c, r) = (?v, ?r6)"
    by (simp add: ex)
  have ov2: "filter (\<lambda>x. fst x = ''verify_nam1'')
               (map (\<lambda>s. (step s, success s)) (results ?p2)) = []"
    by (rule filter_none [OF reconcile_outcomes]) auto
  have outs: "filter (\<lambda>x. fst x = ''verify_nam1'') (outcomes (fst ?run)) =
                [(''verify_nam1'', ok ?r6 \<or> status ?r6 = 404)]"
    by (simp add: run outcomes_def summary_log_steps step7_outcomes step6_outcomes
        step5_outcomes step4_outcomes step3_outcomes ov2 split: option.splits)
  have calls_run: "calls (snd ?run) = calls ?q @ [?v]"
    by (simp add: calls_def ex)
  show ?thesis
    using cr outs ex noq ndq
    by (simp add: calls_run calls_def run summary_log_steps summary_results summary_written)
qed

theorem verification_outcome_witness:
  "(get_gateway_connection_stats ''fg-gw-a00009ef'', \<lparr>status = 404, body = [], ok = False\<rparr>)
     \<in> set (exchanges (snd (provision TTN bare_cooler (GatewayProvisioner
          (world_with [(''fg-gw-a00009ef'', gateway_payload walk_in_cooler)]
             [Serve [], Refuse 404 []])))))
   \<and> is_stats (get_gateway_connection_stats ''fg-gw-a00009ef'')
   \<and> filter (\<lambda>x. fst x = ''verify_nam1'')
        (outcomes (fst (provision TTN bare_cooler (GatewayProvisioner
          (world_with [(''fg-gw-a00009ef'', gateway_payload walk_in_cooler)]
             [Serve [], Refuse 404 []]))))) = [(''verify_nam1'', True)]
   \<and> last (exchanges (snd (provision TTN bare_cooler (GatewayProvisioner
          (world_with [(''fg-gw-a00009ef'', gateway_payload walk_in_cooler)]
             [Serve [], Refuse 404 []]))))) =
       (get_gateway_connection_stats ''fg-gw-a00009ef'', \<lparr>status = 404, body = [], ok = False\<rparr>)"
proof -
  let ?w = "world_with [(''fg-gw-a00009ef'', gateway_payload walk_in_cooler)]
              [Serve [], Refuse 404 []]"
  have e: "exchanges (snd (provision TTN bare_cooler (GatewayProvisioner ?w))) =
     [(get_gateway ''fg-gw-a00009ef'', reply 200 (gateway_payload walk_in_cooler)),
      (get_gateway_connection_stats ''fg-gw-a00009ef'',
       \<lparr>status = 404, body = [], ok = False\<rparr>)]"
    by (simp add: provision_def step1_def step2_def step3_def step4_def step5_def step6_def
        step7_def summary_def GatewayProvisioner_def client_def now_def record_step_def
        bare_cooler_def walk_in_cooler_def gateway_payload_def no_credentials_def
        NAM1_HOST_def TTN_def ttn_request_def world_with_def reply_def dict_get_def Let_def)
  have m: "(get_gateway_connection_stats ''fg-gw-a00009ef'',
            \<lparr>status = 404, body = [], ok = False\<rparr>)
             \<in> set (exchanges (snd (provision TTN bare_cooler (GatewayProvisioner ?w))))"
    by (simp add: e)
  have s: "is_stats (get_gateway_connection_stats ''fg-gw-a00009ef'')"
    by simp
  have g: "gateway_id bare_cooler = ''fg-gw-a00009ef''"
    by (simp add: bare_cooler_def walk_in_cooler_def)
  show ?thesis
    using verification_outcome [OF m s] m
    by (simp add: e g)
qed

subsection \<open>Deprovisioning runs\<close>

lemma session_client_fst:
  "fst (session_client E c s) = fst (request E c (session_world s))"
  by (simp add: session_client_def split_def Let_def)

lemma session_client_snd:
  "snd (session_client E c s) =
     s\<lparr>session_world := snd (request E c (session_world s)),
       session_exchanges := session_exchanges s @ [(c, fst (request E c (session_world s)))]\<rparr>"
  by (simp add: session_client_def split_def Let_def)

lemmas session_simps = session_client_fst session_client_snd say_def split_def Let_def

lemma deprovision_trace:
  "map fst (session_exchanges (snd (deprovision_gateway E g purge w))) =
     (if \<not> ok (check_response E g w) then [get_gateway g]
      else if \<not> (ok (delete_response E g w) \<or> status (delete_response E g w) = 200)
      then [get_gateway g, delete_gateway g]
      else if \<not> purge then [get_gateway g, delete_gateway g, get_gateway g]
      else if ok (purge_response E g w) \<or> status (purge_response E g w) = 200
      then [get_gateway g, delete_gateway g, purge_gateway g, get_gateway g]
      else [get_gateway g, delete_gateway g, purge_gateway g])"
  by (simp add: deprovision_gateway_def deprovision_verify_def check_response_def
      delete_response_def purge_response_def session_simps)

lemma deprovision_result:
  "fst (deprovision_gateway E g purge w) =
     (ok (check_response E g w)
      \<and> (ok (delete_response E g w) \<or> status (delete_response E g w) = 200)
      \<and> (\<not> purge \<or> ok (purge_response E g w) \<or> status (purge_response E g w) = 200))"
  by (simp add: deprovision_gateway_def deprovision_verify_def check_response_def
      delete_response_def purge_response_def session_simps)

lemma deprovision_exchanges:
  "\<exists>v. session_exchanges (snd (deprovision_gateway E g purge w)) =
     (if \<not> ok (check_response E g w) then [(get_gateway g, check_response E g w)]
      else if \<not> (ok (delete_response E g w) \<or> status (delete_response E g w) = 200)
      then [(get_gateway g, check_response E g w), (delete_gateway g, delete_response E g w)]
      else if \<not> purge
      then [(get_gateway g, check_response E g w), (delete_gateway g, delete_response E g w),
            (get_gateway g, v)]
      else if ok (purge_response E g w) \<or> status (purge_response E g w) = 200
      then [(get_gateway g, check_response E g w), (delete_gateway g, delete_response E g w),
            (purge_gateway g, purge_response E g w), (get_gateway g, v)]
      else [(get_gateway g, check_response E g w), (delete_gateway g, delete_response E g w),
            (purge_gateway g, purge_response E g w)])"
  by (simp add: deprovision_gateway_def deprovision_verify_def check_response_def
      delete_response_def purge_response_def session_simps)

lemma purge_position:
  assumes "xs = pre @ (c, r) # post" and "is_purge c"
      and "xs = [(get_gateway g, a), (delete_gateway g, b), (purge_gateway g, p)] @ rest"
      and "list_all (\<lambda>x. \<not> is_purge (fst x)) rest"
  shows "pre = [(get_gateway g, a), (delete_gateway g, b)] \<and> c = purge_gateway g \<and> r = p
         \<and> post = rest"
proof -
  from assms(1,3) have e: "pre @ (c, r) # post =
      (get_gateway g, a) # (delete_gateway g, b) # (purge_gateway g, p) # rest" by simp
  show ?thesis
  proof (cases pre)
    case Nil with e assms(2) show ?thesis by auto
  next
    case (Cons x1 pre1)
    show ?thesis
    proof (cases pre1)
      case Nil with Cons e assms(2) show ?thesis by auto
    next
      case (Cons x2 pre2)
      show ?thesis
      proof (cases pre2)
        case Nil with \<open>pre = x1 # pre1\<close> \<open>pre1 = x2 # pre2\<close> e show ?thesis by auto
      next
        case (Cons x3 pre3)
        with \<open>pre = x1 # pre1\<close> \<open>pre1 = x2 # pre2\<close> e
        have "rest = pre3 @ (c, r) # post" by auto
        with assms(2,4) show ?thesis by auto
      qed
    qed
  qed
qed

lemma no_purge_in:
  assumes "xs = pre @ (c, r) # post" and "is_purge c"
      and "list_all (\<lambda>x. \<not> is_purge (fst x)) xs"
  shows False
  using assms by auto

lemmas deprovision_simps = deprovision_gateway_def deprovision_verify_def check_response_def
  delete_response_def purge_response_def session_client_def say_def Let_def

text \<open>
  Claim C8, as amended. If the existence query of a deprovisioning run is not ok (the
  gateway is not found), the run aborts early: the query is its only exchange, so no
  delete, purge or verification call is made and the world is the one the query left. The
  outcome is reported through \<^verbatim>\<open>step_fail\<close> as a failed \<^verbatim>\<open>Check\<close> step with the
  message \<^verbatim>\<open>Gateway not found: ...\<close>, and the function returns \<^verbatim>\<open>False\<close>, the value it
  also returns for a failed delete or purge.
\<close>

theorem not_found_aborts_early:
  assumes "\<not> ok (check_response E g w)"
  shows "session_exchanges (snd (deprovision_gateway E g purge w)) =
           [(get_gateway g, check_response E g w)]
       \<and> session_world (snd (deprovision_gateway E g purge w)) =
           snd (request E (get_gateway g) w)
       \<and> fst (deprovision_gateway E g purge w) = False
       \<and> console (snd (deprovision_gateway E g purge w)) =
           [step_fail ''Check''
              [Lit ''Gateway not found: '', Str (JObj (body (check_response E g w)))]]"
  using assms
  by (simp add: deprovision_gateway_def check_response_def session_simps)

theorem not_found_aborts_early_witness:
  "\<not> ok (check_response TTN ''fg-gw-a00009ef'' (world_with [] []))
   \<and> map fst (session_exchanges (snd (deprovision_gateway TTN ''fg-gw-a00009ef'' True
        (world_with [] [])))) = [get_gateway ''fg-gw-a00009ef'']
   \<and> fst (deprovision_gateway TTN ''fg-gw-a00009ef'' True (world_with [] [])) = False
   \<and> console (snd (deprovision_gateway TTN ''fg-gw-a00009ef'' True (world_with [] []))) =
       [step_fail ''Check'' [Lit ''Gateway not found: '', Str (JObj (body not_found))]]"
proof -
  have h: "\<not> ok (check_response TTN ''fg-gw-a00009ef'' (world_with [] []))"
    by (simp add: check_response_def ttn_simps)
  have b: "check_response TTN ''fg-gw-a00009ef'' (world_with [] []) = not_found"
    by (simp add: check_response_def TTN_def ttn_request_def world_with_def)
  show ?thesis
    using not_found_aborts_early [OF h, of True] h
    by (simp add: b)
qed

text \<open>
  The claim as stated says the not-found outcome is not reported as a failure. On an empty
  registry the existence query is answered 404 and the run reports a failure.
\<close>

theorem not_found_counterexample:
  "status (check_response TTN ''fg-gw-a00009ef'' (world_with [] [])) = 404
   \<and> reported_as_failure (deprovision_gateway TTN ''fg-gw-a00009ef'' False (world_with [] []))"
  by (simp add: reported_as_failure_def deprovision_gateway_def check_response_def
      session_simps ttn_simps)

text \<open>
  Claim C7. Wherever a purge call stands among the exchanges of a deprovisioning run, the
  purge was asked for, and a delete call that succeeded (ok, or status 200) stands before
  it. When the purge fails, nothing follows it: no further call is made, so nothing undoes
  the delete, and the run returns \<^verbatim>\<open>False\<close>; the run returns \<^verbatim>\<open>True\<close> exactly when
  the purge succeeded. No run makes a register, update or key-creation call.
\<close>

theorem purge_only_after_delete:
  assumes "session_exchanges (snd (deprovision_gateway E g purge w)) = pre @ (c, r) # post"
      and "is_purge c"
  shows "purge
       \<and> (\<exists>rd. (delete_gateway g, rd) \<in> set pre \<and> (ok rd \<or> status rd = 200))
       \<and> (ok r \<or> status r = 200 \<or> post = [])
       \<and> fst (deprovision_gateway E g purge w) = (ok r \<or> status r = 200)
       \<and> filter (\<lambda>c. is_register c \<or> is_update c \<or> is_create_key c)
            (map fst (session_exchanges (snd (deprovision_gateway E g purge w)))) = []"
proof -
  let ?xs = "session_exchanges (snd (deprovision_gateway E g purge w))"
  let ?chk = "check_response E g w"
  let ?del = "delete_response E g w"
  let ?pur = "purge_response E g w"
  obtain v where v: "?xs =
     (if \<not> ok ?chk then [(get_gateway g, ?chk)]
      else if \<not> (ok ?del \<or> status ?del = 200)
      then [(get_gateway g, ?chk), (delete_gateway g, ?del)]
      else if \<not> purge
      then [(get_gateway g, ?chk), (delete_gateway g, ?del), (get_gateway g, v)]
      else if ok ?pur \<or> status ?pur = 200
      then [(get_gateway g, ?chk), (delete_gateway g, ?del), (purge_gateway g, ?pur),
            (get_gateway g, v)]
      else [(get_gateway g, ?chk), (delete_gateway g, ?del), (purge_gateway g, ?pur)])"
    using deprovision_exchanges [of E g purge w] by (elim exE)
  have quiet: "filter (\<lambda>c. is_register c \<or> is_update c \<or> is_create_key c) (map fst ?xs) = []"
    by (simp add: deprovision_trace)
  have purged: "ok ?chk \<and> (ok ?del \<or> status ?del = 200) \<and> purge"
  proof (rule ccontr)
    assume "\<not> ?thesis"
    then have "list_all (\<lambda>x. \<not> is_purge (fst x)) ?xs"
      by (subst v) auto
    with assms show False by (rule no_purge_in)
  qed
  show ?thesis
  proof (cases "ok ?pur \<or> status ?pur = 200")
    case True
    with purged v have "?xs = [(get_gateway g, ?chk), (delete_gateway g, ?del),
        (purge_gateway g, ?pur)] @ [(get_gateway g, v)]" by simp
    from purge_position [OF assms this] purged True quiet show ?thesis
      by (auto simp: deprovision_result)
  next
    case False
    with purged v have "?xs = [(get_gateway g, ?chk), (delete_gateway g, ?del),
        (purge_gateway g, ?pur)] @ []" by simp
    from purge_position [OF assms this] purged False quiet show ?thesis
      by (auto simp: deprovision_result)
  qed
qed

theorem purge_only_after_delete_witness:
  "session_exchanges (snd (deprovision_gateway TTN ''fg-gw-a00009ef'' True
      (world_with [(''fg-gw-a00009ef'', drifted_record)] [Serve [], Serve [], Refuse 500 []]))) =
     [(get_gateway ''fg-gw-a00009ef'', reply 200 drifted_record),
      (delete_gateway ''fg-gw-a00009ef'', reply 200 [])]
     @ (purge_gateway ''fg-gw-a00009ef'', \<lparr>status = 500, body = [], ok = False\<rparr>) # []
   \<and> is_purge (purge_gateway ''fg-gw-a00009ef'')
   \<and> ok (reply 200 [])
   \<and> fst (deprovision_gateway TTN ''fg-gw-a00009ef'' True
      (world_with [(''fg-gw-a00009ef'', drifted_record)] [Serve [], Serve [], Refuse 500 []])) =
     False"
proof -
  let ?w = "world_with [(''fg-gw-a00009ef'', drifted_record)] [Serve [], Serve [], Refuse 500 []]"
  have e: "session_exchanges (snd (deprovision_gateway TTN ''fg-gw-a00009ef'' True ?w)) =
     [(get_gateway ''fg-gw-a00009ef'', reply 200 drifted_record),
      (delete_gateway ''fg-gw-a00009ef'', reply 200 [])]
     @ (purge_gateway ''fg-gw-a00009ef'', \<lparr>status = 500, body = [], ok = False\<rparr>) # []"
    by (simp add: deprovision_simps ttn_simps)
  have p: "is_purge (purge_gateway ''fg-gw-a00009ef'')"
    by simp
  show ?thesis
    using purge_only_after_delete [OF e p] e
    by (simp add: reply_def)
qed

subsection \<open>The default gateway id\<close>

lemma strip_no_space:
  assumes "list_all (\<lambda>c. \<not> is_space c) s"
  shows "strip s = s"
proof -
  have d: "\<And>xs. list_all (\<lambda>c. \<not> is_space c) xs \<Longrightarrow> dropWhile is_space xs = xs"
    by (case_tac xs) auto
  have "list_all (\<lambda>c. \<not> is_space c) (rev s)"
    using assms by (simp add: list_all_iff)
  then show ?thesis
    using assms by (simp add: strip_def d)
qed

lemma hex_digit_facts:
  assumes "c \<in> set ''0123456789ABCDEF''"
  shows "\<not> is_space c" "upper_char c = c" "c \<noteq> CHR '':''" "c \<noteq> CHR '' ''"
proof -
  from assms have "c = CHR ''0'' \<or> c = CHR ''1'' \<or> c = CHR ''2'' \<or> c = CHR ''3''
      \<or> c = CHR ''4'' \<or> c = CHR ''5'' \<or> c = CHR ''6'' \<or> c = CHR ''7''
      \<or> c = CHR ''8'' \<or> c = CHR ''9'' \<or> c = CHR ''A'' \<or> c = CHR ''B''
      \<or> c = CHR ''C'' \<or> c = CHR ''D'' \<or> c = CHR ''E'' \<or> c = CHR ''F''"
    by simp
  then show "\<not> is_space c" "upper_char c = c" "c \<noteq> CHR '':''" "c \<noteq> CHR '' ''"
    by (elim disjE; simp add: is_space_def upper_char_def)+
qed

lemma interactive_eui_valid:
  assumes "valid_eui e"
  shows "interactive_eui e = e"
proof -
  have hex: "list_all (\<lambda>c. c \<in> set ''0123456789ABCDEF'') e"
    using assms by (simp add: valid_eui_def)
  have "list_all (\<lambda>c. \<not> is_space c) e"
    using hex hex_digit_facts(1) by (auto simp: list_all_iff)
  then have s: "strip e = e" by (rule strip_no_space)
  have u: "upper e = e"
    unfolding upper_def using hex hex_digit_facts(2) by (auto simp: list_all_iff intro: map_idI)
  have f1: "remove_char CHR '':'' e = e"
    unfolding remove_char_def using hex hex_digit_facts(3) by (auto simp: list_all_iff)
  have f2: "remove_char CHR '' '' e = e"
    unfolding remove_char_def using hex hex_digit_facts(4) by (auto simp: list_all_iff)
  show ?thesis
    by (simp add: interactive_eui_def s u f1 f2)
qed

lemma hex_digit_ascii:
  assumes "c \<in> set ''0123456789ABCDEF''"
  shows "\<not> digit7 c"
proof -
  from assms have "c = CHR ''0'' \<or> c = CHR ''1'' \<or> c = CHR ''2'' \<or> c = CHR ''3''
      \<or> c = CHR ''4'' \<or> c = CHR ''5'' \<or> c = CHR ''6'' \<or> c = CHR ''7''
      \<or> c = CHR ''8'' \<or> c = CHR ''9'' \<or> c = CHR ''A'' \<or> c = CHR ''B''
      \<or> c = CHR ''C'' \<or> c = CHR ''D'' \<or> c = CHR ''E'' \<or> c = CHR ''F''"
    by simp
  then show ?thesis
    by (elim disjE; simp)
qed

lemma valid_eui_ascii:
  assumes "valid_eui e"
  shows "ascii e"
  using assms hex_digit_ascii by (auto simp: valid_eui_def ascii_def list_all_iff)

text \<open>
  Claim C10. When no gateway id is supplied, each entry point derives \<^verbatim>\<open>fg-gw-\<close>
  followed by the last eight characters of the gateway EUI, lower-cased: \<^verbatim>\<open>main\<close> when
  \<^verbatim>\<open>--gateway-id\<close> is omitted, \<^verbatim>\<open>batch_provision\<close> when the entry has no
  \<^verbatim>\<open>gateway_id\<close> key, \<^verbatim>\<open>interactive_provision\<close> when the answer at the prompt is blank
  (its EUI is the typed one normalised, and must be 16 hexadecimal digits). This is stated
  for ASCII input, where the string operations of the model are Python's. An EUI that is
  already 16 upper-case hexadecimal digits is ASCII and its own normal form, so for it all
  three derive the same id.
\<close>

theorem default_gateway_id:
  "(ascii e \<longrightarrow> main_gateway_id None e = ''fg-gw-'' @ lower (drop (length e - 8) e))
   \<and> (ascii e \<and> map_of gw ''gateway_id'' = None \<and> map_of gw ''gateway_eui'' = Some (JStr e)
        \<longrightarrow> batch_gateway_id gw = Inr (JStr (''fg-gw-'' @ lower (drop (length e - 8) e))))
   \<and> (ascii typed \<and> ascii answer \<and> valid_eui (interactive_eui typed) \<and> strip answer = []
        \<longrightarrow> interactive_gateway_id typed answer =
            Some (''fg-gw-'' @ lower (drop (length (interactive_eui typed) - 8)
                                          (interactive_eui typed))))
   \<and> (valid_eui e \<longrightarrow> ascii e \<and> interactive_eui e = e)"
  by (simp add: main_gateway_id_def batch_gateway_id_def interactive_gateway_id_def
      last8_def dict_get_def interactive_eui_valid valid_eui_ascii Let_def)

theorem default_gateway_id_witness:
  "ascii ''00800000A00009EF''
   \<and> valid_eui ''00800000A00009EF''
   \<and> main_gateway_id None ''00800000A00009EF'' = ''fg-gw-a00009ef''
   \<and> batch_gateway_id [(''gateway_eui'', JStr ''00800000A00009EF'')] =
       Inr (JStr ''fg-gw-a00009ef'')
   \<and> interactive_gateway_id ''00800000A00009EF'' '''' = Some ''fg-gw-a00009ef''
   \<and> interactive_eui ''00800000A00009EF'' = ''00800000A00009EF''"
proof -
  have a: "ascii ''00800000A00009EF''"
    by (simp add: ascii_def)
  have b: "ascii ''''"
    by (simp add: ascii_def)
  have v: "valid_eui ''00800000A00009EF''"
    by (simp add: valid_eui_def)
  have i: "interactive_eui ''00800000A00009EF'' = ''00800000A00009EF''"
    by (simp add: interactive_eui_def strip_def is_space_def upper_def upper_char_def
        remove_char_def)
  have l: "lower ''A00009EF'' = ''a00009ef''"
    by (simp add: lower_def lower_char_def)
  show ?thesis
    using default_gateway_id [of "''00800000A00009EF''"
        "[(''gateway_eui'', JStr ''00800000A00009EF'')]" "''00800000A00009EF''" "''''"] a b v
    by (simp add: i l strip_def)
qed

subsection \<open>A failed existence query\<close>

text \<open>
  Claim C5, as amended. If the existence query is not ok, whether the status is 404 or any
  other error, the run is not stopped there: the registration call is the next call. Only
  when that registration fails is the run terminal, with the query and the registration as
  its only calls and one failed step in the log. When it succeeds, the step
  \<^verbatim>\<open>register\<close> is logged as a success and further calls follow the registration; with
  the key files written without error, as assumed throughout, the last of them is the
  verification query.
\<close>

theorem failed_query_still_registers:
  assumes "\<not> ok (existing_response E a w)"
  shows "take 2 (calls (snd (provision E a (GatewayProvisioner w)))) =
           [get_gateway (gateway_id a), register_call a]
       \<and> (if ok (registration_response E a w)
          then (''register'', True)
                 \<in> set (outcomes (fst (provision E a (GatewayProvisioner w))))
               \<and> 2 < length (calls (snd (provision E a (GatewayProvisioner w))))
               \<and> last (calls (snd (provision E a (GatewayProvisioner w)))) =
                   get_gateway_connection_stats (gateway_id a)
          else calls (snd (provision E a (GatewayProvisioner w))) =
                 [get_gateway (gateway_id a), register_call a]
               \<and> outcomes (fst (provision E a (GatewayProvisioner w))) =
                   [(''register'', False)])"
proof (cases "ok (registration_response E a w)")
  case False
  with assms show ?thesis
    by (simp add: provision_def step1_def step2_def summary_def GatewayProvisioner_def
        existing_response_def registration_response_def outcomes_def calls_def run_simps)
next
  case True
  let ?p1 = "snd (step1 E a ((GatewayProvisioner w)\<lparr>creds := no_credentials\<rparr>))"
  let ?p2 = "snd (step2 E a (existing_response E a w) ?p1)"
  let ?rest = "step7 E a (step6 E a (step5 E a (step4 E a (step3 E a ?p2))))"
  have cont: "fst (step2 E a (existing_response E a w) ?p1)"
    using assms True
    by (simp add: step1_def step2_def GatewayProvisioner_def existing_response_def
        registration_response_def run_simps)
  have run: "provision E a (GatewayProvisioner w) = summary E (gateway_id a) ?rest"
    using cont by (rule provision_continued)
  have c2: "calls ?p2 = [get_gateway (gateway_id a), register_call a]"
    using assms
    by (simp add: step1_def step2_def calls_def GatewayProvisioner_def existing_response_def
        run_simps)
  have r2: "map (\<lambda>s. (step s, success s)) (results ?p2) = [(''register'', True)]"
    using assms True
    by (simp add: step1_def step2_def GatewayProvisioner_def existing_response_def
        registration_response_def run_simps)
  obtain ys where ys: "results ?rest = results ?p2 @ ys"
    using later_steps_results by blast
  have out: "(''register'', True) \<in> set (outcomes (fst (provision E a (GatewayProvisioner w))))"
    by (simp add: run outcomes_def summary_log_steps ys r2)
  have cs: "calls (snd (provision E a (GatewayProvisioner w))) = calls ?rest"
    by (simp add: run summary_calls)
  show ?thesis
    unfolding cs later_steps_calls c2 using out True
    by (simp split: option.splits)
qed

theorem failed_query_still_registers_witness:
  "\<not> ok (existing_response TTN bare_cooler
      (world_with [] [Refuse 401 [(''message'', JStr ''unauthenticated'')]]))
   \<and> ok (registration_response TTN bare_cooler
      (world_with [] [Refuse 401 [(''message'', JStr ''unauthenticated'')]]))
   \<and> take 2 (calls (snd (provision TTN bare_cooler (GatewayProvisioner
      (world_with [] [Refuse 401 [(''message'', JStr ''unauthenticated'')]]))))) =
       [get_gateway ''fg-gw-a00009ef'', register_call bare_cooler]
   \<and> 2 < length (calls (snd (provision TTN bare_cooler (GatewayProvisioner
      (world_with [] [Refuse 401 [(''message'', JStr ''unauthenticated'')]])))))
   \<and> last (calls (snd (provision TTN bare_cooler (GatewayProvisioner
      (world_with [] [Refuse 401 [(''message'', JStr ''unauthenticated'')]]))))) =
       get_gateway_connection_stats ''fg-gw-a00009ef''"
proof -
  let ?w = "world_with [] [Refuse 401 [(''message'', JStr ''unauthenticated'')]]"
  have h: "\<not> ok (existing_response TTN bare_cooler ?w)"
    by (simp add: existing_response_def ttn_simps)
  have r: "ok (registration_response TTN bare_cooler ?w)"
    by (simp add: registration_response_def register_call_def gateway_payload_def
        bare_cooler_def walk_in_cooler_def ttn_simps)
  have g: "gateway_id bare_cooler = ''fg-gw-a00009ef''"
    by (simp add: bare_cooler_def walk_in_cooler_def)
  show ?thesis
    using failed_query_still_registers [OF h] h r
    by (simp add: g)
qed

text \<open>
  The claim as stated says that after an error other than not-found no further step is
  attempted. With an existence query refused with status 401 and an otherwise willing
  registry, the run registers the gateway and verifies it.
\<close>

theorem failed_query_counterexample:
  "status (existing_response TTN bare_cooler
      (world_with [] [Refuse 401 [(''message'', JStr ''unauthenticated'')]])) = 401
   \<and> \<not> ok (existing_response TTN bare_cooler
      (world_with [] [Refuse 401 [(''message'', JStr ''unauthenticated'')]]))
   \<and> calls (snd (provision TTN bare_cooler (GatewayProvisioner
      (world_with [] [Refuse 401 [(''message'', JStr ''unauthenticated'')]])))) =
       [get_gateway ''fg-gw-a00009ef'',
        register_gateway_for_user ''my-ttn-user'' (gateway_payload bare_cooler),
        get_gateway_connection_stats ''fg-gw-a00009ef'']
   \<and> outcomes (fst (provision TTN bare_cooler (GatewayProvisioner
      (world_with [] [Refuse 401 [(''message'', JStr ''unauthenticated'')]])))) =
       [(''register'', True), (''verify_nam1'', True)]"
  by (simp add: provision_def step1_def step2_def step3_def step4_def step5_def step6_def
      step7_def summary_def GatewayProvisioner_def client_def now_def record_step_def
      bare_cooler_def walk_in_cooler_def gateway_payload_def no_credentials_def
      register_call_def existing_response_def calls_def outcomes_def
      TTN_def ttn_request_def world_with_def reply_def dict_get_def create_record_def
      submitted_id_def Let_def)

subsection \<open>Credential secrecy\<close>

lemma reissue_fields:
  "utcnow (reissue s E) = utcnow E" "getenv (reissue s E) = getenv E"
  "create_client (reissue s E) = create_client E" "upsert (reissue s E) = upsert E"
  by (simp_all add: reissue_def)

lemma reissue_snd: "snd (request (reissue s E) c w) = snd (request E c w)"
  by (simp add: reissue_def split_def Let_def)

lemma reissue_ok: "ok (fst (request (reissue s E) c w)) = ok (fst (request E c w))"
  by (simp add: reissue_def split_def Let_def)

lemma reissue_status: "status (fst (request (reissue s E) c w)) = status (fst (request E c w))"
  by (simp add: reissue_def split_def Let_def)

lemma reissue_other:
  "\<not> is_create_key c \<Longrightarrow> fst (request (reissue s E) c w) = fst (request E c w)"
  by (simp add: reissue_def split_def Let_def)

lemma reissue_failed:
  "\<not> ok (fst (request E c w)) \<Longrightarrow> fst (request (reissue s E) c w) = fst (request E c w)"
  by (simp add: reissue_def split_def Let_def)

lemma reissue_id:
  "dict_get (body (fst (request (reissue s E) c w))) ''id'' d =
   dict_get (body (fst (request E c w))) ''id'' d"
  by (simp add: reissue_def split_def Let_def dict_get_def update_conv')

lemmas reissue_simps = reissue_fields reissue_snd reissue_ok reissue_status reissue_id

lemma step1_agree:
  assumes "agree p q"
  shows "fst (step1 (reissue s E) a p) = fst (step1 E a q)"
    and "agree (snd (step1 (reissue s E) a p)) (snd (step1 E a q))"
  using assms
  by (simp_all add: agree_def step1_def run_simps reissue_simps reissue_other)

lemma step2_agree:
  assumes "agree p q"
  shows "fst (step2 (reissue s E) a x p) = fst (step2 E a x q)"
    and "agree (snd (step2 (reissue s E) a x p)) (snd (step2 E a x q))"
  using assms
  by (simp_all add: agree_def step2_def run_simps reissue_simps reissue_other
      register_call_kind pointer_update_call_def)

lemma step3_agree:
  assumes "agree p q"
  shows "agree (step3 (reissue s E) a p) (step3 E a q)"
  using assms
  by (simp add: agree_def step3_def run_simps reissue_simps reissue_other
      split: option.splits)

lemma step4_agree:
  assumes "agree p q"
  shows "agree (step4 (reissue s E) a p) (step4 E a q)"
  using assms
  by (simp add: agree_def step4_def run_simps reissue_simps reissue_failed)

lemma step5_agree:
  assumes "agree p q"
  shows "agree (step5 (reissue s E) a p) (step5 E a q)"
  using assms
  by (simp add: agree_def step5_def run_simps reissue_simps reissue_failed)

lemma step6_agree:
  assumes "agree p q"
  shows "agree (step6 (reissue s E) a p) (step6 E a q)"
  using assms
  by (simp add: agree_def step6_def run_simps reissue_simps reissue_other)

lemma store_in_supabase_agree:
  assumes "agree p q"
  shows "fst (store_in_supabase (reissue s E) a p) = fst (store_in_supabase E a q)"
    and "agree (snd (store_in_supabase (reissue s E) a p)) (snd (store_in_supabase E a q))"
  using assms
  by (simp_all add: agree_def store_in_supabase_def run_simps reissue_simps)

lemma step7_agree:
  assumes "agree p q"
  shows "agree (step7 (reissue s E) a p) (step7 E a q)"
  using store_in_supabase_agree [OF assms, of s E a] assms
  by (simp add: agree_def step7_def run_simps reissue_simps)

lemma summary_agree:
  assumes "agree p q"
  shows "fst (summary (reissue s E) g p) = fst (summary E g q)"
  using assms
  by (simp add: agree_def summary_def run_simps reissue_simps)

lemma summary_credentials:
  "log_lns_key_id (fst (summary E g p)) = lns_key_id (creds p)"
  "log_cups_key_id (fst (summary E g p)) = cups_key_id (creds p)"
  by (simp_all add: summary_def run_simps)

lemma summary_creds: "creds (snd (summary E g p)) = creds p"
  by (simp add: summary_def run_simps)

lemma provision_credentials:
  "log_lns_key_id (fst (provision E a p)) = lns_key_id (creds (snd (provision E a p)))"
  "log_cups_key_id (fst (provision E a p)) = cups_key_id (creds (snd (provision E a p)))"
  by (simp_all add: provision_def split_def Let_def summary_credentials summary_creds)

lemma provision_written:
  "last (written (snd (provision E a p))) =
     (Path (gateway_id a @ ''_provision_log.json''), Json (fst (provision E a p)))"
  by (simp add: provision_def split_def Let_def summary_written)

lemmas evaluate = provision_def step1_def step2_def step3_def step4_def step5_def step6_def
  step7_def summary_def store_in_supabase_def GatewayProvisioner_def client_def now_def
  record_step_def bare_cooler_def walk_in_cooler_def drifted_record_def issued_key_def
  gateway_payload_def no_credentials_def register_call_def pointer_update_call_def
  existing_response_def calls_def outcomes_def reconciled_def server_pointer_def
  NAM1_HOST_def DEFAULT_FREQUENCY_PLAN_def
  TTN_def ttn_request_def world_with_def reply_def not_found_def dict_get_def
  create_record_def submitted_id_def set_fields_def Let_def

text \<open>
  Claim C6. The run log does not depend on the secrets of the keys that were issued: run
  against the same environment with every issued key's secret replaced by any other value,
  \<^verbatim>\<open>provision\<close> returns the same log, step for step (names, messages, data payloads,
  timestamps) and with the same credentials section. That log is what is written to the
  log file, and its credentials section holds the two key identifiers of the run's
  \<^verbatim>\<open>credentials\<close>, never the keys. So no secret value is in the persisted log; the
  identifier is (in the message of the key's step and in the credentials section), and the
  secret goes to the key file only.
\<close>

theorem log_independent_of_secrets:
  "fst (provision (reissue secret E) a (GatewayProvisioner w)) =
     fst (provision E a (GatewayProvisioner w))
   \<and> last (written (snd (provision E a (GatewayProvisioner w)))) =
       (Path (gateway_id a @ ''_provision_log.json''),
        Json (fst (provision E a (GatewayProvisioner w))))
   \<and> log_lns_key_id (fst (provision E a (GatewayProvisioner w))) =
       lns_key_id (creds (snd (provision E a (GatewayProvisioner w))))
   \<and> log_cups_key_id (fst (provision E a (GatewayProvisioner w))) =
       cups_key_id (creds (snd (provision E a (GatewayProvisioner w))))"
proof -
  let ?E' = "reissue secret E"
  let ?p0 = "(GatewayProvisioner w)\<lparr>creds := no_credentials\<rparr>"
  have a0: "agree ?p0 ?p0" by (simp add: agree_def)
  have x: "fst (step1 ?E' a ?p0) = fst (step1 E a ?p0)"
    using a0 by (rule step1_agree)
  have a1: "agree (snd (step1 ?E' a ?p0)) (snd (step1 E a ?p0))"
    using a0 by (rule step1_agree)
  let ?x = "fst (step1 E a ?p0)"
  have c: "fst (step2 ?E' a ?x (snd (step1 ?E' a ?p0))) =
           fst (step2 E a ?x (snd (step1 E a ?p0)))"
    using a1 by (rule step2_agree)
  have a2: "agree (snd (step2 ?E' a ?x (snd (step1 ?E' a ?p0))))
                  (snd (step2 E a ?x (snd (step1 E a ?p0))))"
    using a1 by (rule step2_agree)
  have a7: "agree
     (step7 ?E' a (step6 ?E' a (step5 ?E' a (step4 ?E' a (step3 ?E' a
        (snd (step2 ?E' a ?x (snd (step1 ?E' a ?p0)))))))))
     (step7 E a (step6 E a (step5 E a (step4 E a (step3 E a
        (snd (step2 E a ?x (snd (step1 E a ?p0)))))))))"
    by (intro step7_agree step6_agree step5_agree step4_agree step3_agree a2)
  have "fst (provision ?E' a (GatewayProvisioner w)) = fst (provision E a (GatewayProvisioner w))"
    by (simp add: provision_def split_def Let_def x c summary_agree [OF a2]
        summary_agree [OF a7])
  then show ?thesis
    by (simp add: provision_credentials provision_written)
qed

theorem log_independent_of_secrets_witness:
  "map (\<lambda>s. (step s, success s))
     (log_steps (fst (provision (reissue (\<lambda>c. JStr ''NNSXS.ROTATED'') TTN) walk_in_cooler
        (GatewayProvisioner
           (world_with [] [Serve [], Serve [], Serve issued_key, Refuse 404 []]))))) =
     [(''register'', True), (''create_lns_key'', True), (''verify_nam1'', True)]
   \<and> map message
     (filter (\<lambda>s. step s = ''create_lns_key'')
     (log_steps (fst (provision (reissue (\<lambda>c. JStr ''NNSXS.ROTATED'') TTN) walk_in_cooler
        (GatewayProvisioner
           (world_with [] [Serve [], Serve [], Serve issued_key, Refuse 404 []])))))) =
     [[Lit ''LNS key created (ID: '', Str (JStr ''lns-key-1''), Lit '')'']]
   \<and> map data
     (filter (\<lambda>s. step s = ''create_lns_key'')
     (log_steps (fst (provision (reissue (\<lambda>c. JStr ''NNSXS.ROTATED'') TTN) walk_in_cooler
        (GatewayProvisioner
           (world_with [] [Serve [], Serve [], Serve issued_key, Refuse 404 []])))))) = [[]]
   \<and> log_lns_key_id (fst (provision (reissue (\<lambda>c. JStr ''NNSXS.ROTATED'') TTN) walk_in_cooler
        (GatewayProvisioner
           (world_with [] [Serve [], Serve [], Serve issued_key, Refuse 404 []])))) =
     Some (JStr ''lns-key-1'')
   \<and> hd (written (snd (provision TTN walk_in_cooler
        (GatewayProvisioner
           (world_with [] [Serve [], Serve [], Serve issued_key, Refuse 404 []]))))) =
     (Slash (Path ''.'') ''fg-gw-a00009ef_lns.key'',
      Text [Lit ''Authorization: Bearer '', Str (JStr ''NNSXS.SECRET''),
            Lit [CHR 0x0D, CHR 0x0A]])"
proof -
  let ?w = "world_with [] [Serve [], Serve [], Serve issued_key, Refuse 404 []]"
  have e: "case provision TTN walk_in_cooler (GatewayProvisioner ?w) of
      (l, r) \<Rightarrow>
        map (\<lambda>s. (step s, success s)) (log_steps l) =
          [(''register'', True), (''create_lns_key'', True), (''verify_nam1'', True)]
        \<and> map message (filter (\<lambda>s. step s = ''create_lns_key'') (log_steps l)) =
          [[Lit ''LNS key created (ID: '', Str (JStr ''lns-key-1''), Lit '')'']]
        \<and> map data (filter (\<lambda>s. step s = ''create_lns_key'') (log_steps l)) = [[]]
        \<and> log_lns_key_id l = Some (JStr ''lns-key-1'')
        \<and> hd (written r) =
          (Slash (Path ''.'') ''fg-gw-a00009ef_lns.key'',
           Text [Lit ''Authorization: Bearer '', Str (JStr ''NNSXS.SECRET''),
                 Lit [CHR 0x0D, CHR 0x0A]])"
    by (simp add: evaluate)
  show ?thesis
    using log_independent_of_secrets
      [of "\<lambda>c. JStr ''NNSXS.ROTATED''" TTN walk_in_cooler ?w] e
    by (simp add: split_def)
qed

subsection \<open>Convergence of the pointer and idempotence\<close>

lemma TTN_fields:
  "request TTN = ttn_request" "utcnow TTN w = (today w, w)"
  "upsert TTN row w = (database w, w)"
  by (simp_all add: TTN_def)

lemma set_fields_other:
  "k \<notin> set paths \<Longrightarrow> map_of (set_fields paths sub r) k = map_of r k"
  unfolding set_fields_def
  by (induction paths arbitrary: r) (auto simp: update_conv' delete_conv' split: option.splits)

lemma serve_keeps_pointer:
  assumes "\<not> is_register c" "\<not> touches_pointer c" "\<not> is_delete c" "\<not> is_purge c"
  shows "server_pointer (w\<lparr>gateways := snd (serve c x (gateways w))\<rparr>) g = server_pointer w g"
  using assms
  by (cases c)
     (auto simp: server_pointer_def touches_pointer_def update_conv' set_fields_other
        Let_def split: option.splits)

lemma server_pointer_script [simp]:
  "server_pointer (w\<lparr>script := sc\<rparr>) g = server_pointer w g"
  by (simp add: server_pointer_def)

lemma ttn_request_keeps_pointer:
  assumes "\<not> is_register c" "\<not> touches_pointer c" "\<not> is_delete c" "\<not> is_purge c"
  shows "server_pointer (snd (ttn_request c w)) g = server_pointer w g"
proof (cases "script w")
  case Nil
  then show ?thesis
    using serve_keeps_pointer [OF assms, where w = w and x = "[]" and g = g]
    by (simp add: ttn_request_def split_def Let_def)
next
  case (Cons v rest)
  show ?thesis
  proof (cases v)
    case (Serve x)
    have "server_pointer (w\<lparr>gateways := snd (serve c x (gateways w)), script := rest\<rparr>) g =
          server_pointer (w\<lparr>gateways := snd (serve c x (gateways w))\<rparr>) g"
      by (simp add: server_pointer_def)
    with Cons Serve show ?thesis
      using serve_keeps_pointer [OF assms, where w = w and x = x and g = g]
      by (simp add: ttn_request_def split_def Let_def)
  next
    case (Refuse st b)
    with Cons show ?thesis
      by (simp add: ttn_request_def)
  qed
qed

text \<open>Steps 3 to 7 and the summary leave the pointer of every stored record as it is.\<close>

lemma step3_keeps_pointer:
  "server_pointer (world (step3 TTN a p)) g = server_pointer (world p) g"
  by (simp add: step3_def run_simps TTN_fields ttn_request_keeps_pointer touches_pointer_def
      split: option.splits)

lemma step4_keeps_pointer:
  "server_pointer (world (step4 TTN a p)) g = server_pointer (world p) g"
  by (simp add: step4_def run_simps TTN_fields ttn_request_keeps_pointer touches_pointer_def)

lemma step5_keeps_pointer:
  "server_pointer (world (step5 TTN a p)) g = server_pointer (world p) g"
  by (simp add: step5_def run_simps TTN_fields ttn_request_keeps_pointer touches_pointer_def)

lemma step6_keeps_pointer:
  "server_pointer (world (step6 TTN a p)) g = server_pointer (world p) g"
  by (simp add: step6_def run_simps TTN_fields ttn_request_keeps_pointer touches_pointer_def)

lemma step7_keeps_pointer:
  "server_pointer (world (step7 TTN a p)) g = server_pointer (world p) g"
  by (simp add: step7_def store_in_supabase_def run_simps TTN_fields)

lemma summary_keeps_pointer:
  "server_pointer (world (snd (summary TTN gid p))) g = server_pointer (world p) g"
  by (simp add: summary_def run_simps TTN_fields)

lemma later_steps_keep_pointer:
  "server_pointer (world (snd (summary TTN gid
      (step7 TTN a (step6 TTN a (step5 TTN a (step4 TTN a (step3 TTN a p)))))))) g =
   server_pointer (world p) g"
  by (simp add: summary_keeps_pointer step7_keeps_pointer step6_keeps_pointer
      step5_keeps_pointer step4_keeps_pointer step3_keeps_pointer)

text \<open>What an ok answer of the registry tells about its store.\<close>

lemma get_gateway_ok:
  assumes "ok (fst (ttn_request (get_gateway g) w))"
  shows "map_of (gateways w) g = Some (body (fst (ttn_request (get_gateway g) w)))"
  using assms
  by (auto simp: ttn_request_def reply_def not_found_def Let_def
      split: list.splits verdict.splits option.splits)

lemma get_gateway_store:
  "gateways (snd (ttn_request (get_gateway g) w)) = gateways w"
  by (auto simp: ttn_request_def Let_def split: list.splits verdict.splits option.splits)

lemma submitted_id_payload: "submitted_id (gateway_payload a) = Some (gateway_id a)"
  by (simp add: submitted_id_def gateway_payload_def dict_get_def)

lemma register_ok:
  assumes "ok (fst (ttn_request (register_call a) w))"
  shows "server_pointer (snd (ttn_request (register_call a) w)) (gateway_id a) =
           Some (JStr NAM1_HOST)"
proof -
  have p: "map_of (gateway_payload a) ''gateway_server_address'' = Some (JStr NAM1_HOST)"
    by (simp add: gateway_payload_def)
  have "ok (fst (create_record (gateway_payload a) reg)) \<Longrightarrow>
        map_of (snd (create_record (gateway_payload a) reg)) (gateway_id a) =
          Some (gateway_payload a)" for reg
    by (auto simp: create_record_def submitted_id_payload reply_def update_conv'
        split: option.splits)
  then show ?thesis
    using assms p
    by (auto simp: ttn_request_def register_call_def server_pointer_def Let_def split_def
        split: list.splits verdict.splits if_splits)
qed

lemma pointer_update_ok:
  assumes "ok (fst (ttn_request (pointer_update_call a) w))"
  shows "server_pointer (snd (ttn_request (pointer_update_call a) w)) (gateway_id a) =
           Some (JStr NAM1_HOST)"
  using assms
  by (auto simp: ttn_request_def pointer_update_call_def server_pointer_def Let_def
      reply_def not_found_def update_conv' set_fields_def
      split: list.splits verdict.splits option.splits)

lemma present_correct_pointer:
  assumes "ok (fst (ttn_request (get_gateway g) w))"
      and "dict_get (body (fst (ttn_request (get_gateway g) w))) ''gateway_server_address''
             (JStr '''') = JStr NAM1_HOST"
  shows "server_pointer (snd (ttn_request (get_gateway g) w)) g = Some (JStr NAM1_HOST)"
proof -
  have "map_of (body (fst (ttn_request (get_gateway g) w))) ''gateway_server_address'' =
          Some (JStr NAM1_HOST)"
    using assms(2) by (auto simp: dict_get_def NAM1_HOST_def split: option.splits)
  then show ?thesis
    using get_gateway_ok [OF assms(1)]
    by (simp add: server_pointer_def get_gateway_store)
qed

lemma reconcile_converges:
  assumes "filter (\<lambda>s. (step s = ''register'' \<or> step s = ''update_server_address'')
                        \<and> \<not> success s)
             (results (snd (step2 TTN a (existing_response TTN a w)
                (snd (step1 TTN a ((GatewayProvisioner w)\<lparr>creds := no_credentials\<rparr>)))))) = []"
  shows "server_pointer
           (world (snd (step2 TTN a (existing_response TTN a w)
              (snd (step1 TTN a ((GatewayProvisioner w)\<lparr>creds := no_credentials\<rparr>))))))
           (gateway_id a) = Some (JStr NAM1_HOST)"
proof (cases "ok (fst (ttn_request (get_gateway (gateway_id a)) w))")
  case False
  with assms show ?thesis
    by (simp add: step1_def step2_def run_simps TTN_fields existing_response_def
        GatewayProvisioner_def register_ok split: if_splits)
next
  case True
  show ?thesis
  proof (cases "dict_get (body (fst (ttn_request (get_gateway (gateway_id a)) w)))
                  ''gateway_server_address'' (JStr '''') = JStr NAM1_HOST")
    case True
    with \<open>ok (fst (ttn_request (get_gateway (gateway_id a)) w))\<close> show ?thesis
      by (simp add: step1_def step2_def run_simps TTN_fields existing_response_def
          GatewayProvisioner_def present_correct_pointer)
  next
    case False
    with \<open>ok (fst (ttn_request (get_gateway (gateway_id a)) w))\<close> assms show ?thesis
      by (simp add: step1_def step2_def run_simps TTN_fields existing_response_def
          GatewayProvisioner_def pointer_update_ok split: if_splits)
  qed
qed

lemma filter_append_empty: "filter P (xs @ ys) = [] \<Longrightarrow> filter P xs = []"
  by simp

lemma provision_log_steps:
  "log_steps (fst (provision E a p)) = results (snd (provision E a p))"
  by (simp add: provision_def split_def Let_def summary_log_steps summary_results)

lemma run_pointer:
  assumes "filter (\<lambda>s. (step s = ''register'' \<or> step s = ''update_server_address'')
                        \<and> \<not> success s)
             (results (snd (provision TTN a (GatewayProvisioner w)))) = []"
  shows "server_pointer (world (snd (provision TTN a (GatewayProvisioner w)))) (gateway_id a) =
           Some (JStr NAM1_HOST)"
proof -
  let ?p1 = "snd (step1 TTN a ((GatewayProvisioner w)\<lparr>creds := no_credentials\<rparr>))"
  let ?p2 = "snd (step2 TTN a (existing_response TTN a w) ?p1)"
  let ?rest = "step7 TTN a (step6 TTN a (step5 TTN a (step4 TTN a (step3 TTN a ?p2))))"
  let ?bad = "\<lambda>s. (step s = ''register'' \<or> step s = ''update_server_address'') \<and> \<not> success s"
  show ?thesis
  proof (cases "fst (step2 TTN a (existing_response TTN a w) ?p1)")
    case True
    then have run: "provision TTN a (GatewayProvisioner w) = summary TTN (gateway_id a) ?rest"
      by (rule provision_continued)
    obtain ys where ys: "results ?rest = results ?p2 @ ys"
      using later_steps_results by blast
    have "filter ?bad (results ?rest) = []"
      using assms by (simp add: run summary_results)
    then have "filter ?bad (results ?p2) = []"
      unfolding ys by (rule filter_append_empty)
    then have "server_pointer (world ?p2) (gateway_id a) = Some (JStr NAM1_HOST)"
      by (rule reconcile_converges)
    then show ?thesis
      by (simp add: run later_steps_keep_pointer)
  next
    case False
    then have run: "provision TTN a (GatewayProvisioner w) = summary TTN (gateway_id a) ?p2"
      by (simp add: provision_def split_def Let_def step1_fst)
    have "filter ?bad (results ?p2) = []"
      using assms by (simp add: run summary_results)
    then have "server_pointer (world ?p2) (gateway_id a) = Some (JStr NAM1_HOST)"
      by (rule reconcile_converges)
    then show ?thesis
      by (simp add: run summary_keeps_pointer)
  qed
qed

text \<open>
  Claim C1. Run against the registry, a run of \<^verbatim>\<open>provision\<close> whose reconcile phase
  succeeded (its log holds no failed \<^verbatim>\<open>register\<close> or \<^verbatim>\<open>update_server_address\<close> step)
  ends with the gateway's stored record pointing at the fixed radio-plane host: whatever
  the registry held before (no record, a record with a drifted pointer, a record with the
  right pointer) and whichever later steps succeeded or failed.
\<close>

theorem pointer_converges:
  assumes "reconciled (fst (provision TTN a (GatewayProvisioner w)))"
  shows "server_pointer (world (snd (provision TTN a (GatewayProvisioner w)))) (gateway_id a) =
           Some (JStr NAM1_HOST)"
proof -
  have "filter (\<lambda>s. (step s = ''register'' \<or> step s = ''update_server_address'')
                     \<and> \<not> success s)
          (results (snd (provision TTN a (GatewayProvisioner w)))) = []"
    using assms by (simp add: reconciled_def provision_log_steps)
  then show ?thesis
    by (rule run_pointer)
qed

theorem pointer_converges_witness:
  "reconciled (fst (provision TTN bare_cooler (GatewayProvisioner (world_with [] []))))
   \<and> server_pointer (world_with [] []) ''fg-gw-a00009ef'' = None
   \<and> server_pointer (world (snd (provision TTN bare_cooler (GatewayProvisioner
        (world_with [] []))))) ''fg-gw-a00009ef'' = Some (JStr ''nam1.cloud.thethings.network'')
   \<and> reconciled (fst (provision TTN bare_cooler (GatewayProvisioner
        (world_with [(''fg-gw-a00009ef'', drifted_record)] []))))
   \<and> server_pointer (world_with [(''fg-gw-a00009ef'', drifted_record)] []) ''fg-gw-a00009ef'' =
        Some (JStr ''eu1.cloud.thethings.network'')
   \<and> server_pointer (world (snd (provision TTN bare_cooler (GatewayProvisioner
        (world_with [(''fg-gw-a00009ef'', drifted_record)] []))))) ''fg-gw-a00009ef'' =
        Some (JStr ''nam1.cloud.thethings.network'')
   \<and> reconciled (fst (provision TTN bare_cooler (GatewayProvisioner
        (world_with [(''fg-gw-a00009ef'', gateway_payload walk_in_cooler)] []))))
   \<and> server_pointer (world (snd (provision TTN bare_cooler (GatewayProvisioner
        (world_with [(''fg-gw-a00009ef'', gateway_payload walk_in_cooler)] []))))) ''fg-gw-a00009ef'' =
        Some (JStr ''nam1.cloud.thethings.network'')"
proof -
  have h1: "reconciled (fst (provision TTN bare_cooler (GatewayProvisioner (world_with [] []))))"
    by (simp add: evaluate)
  have h2: "reconciled (fst (provision TTN bare_cooler (GatewayProvisioner
        (world_with [(''fg-gw-a00009ef'', drifted_record)] []))))"
    by (simp add: evaluate)
  have h3: "reconciled (fst (provision TTN bare_cooler (GatewayProvisioner
        (world_with [(''fg-gw-a00009ef'', gateway_payload walk_in_cooler)] []))))"
    by (simp add: evaluate)
  have b1: "server_pointer (world_with [] []) ''fg-gw-a00009ef'' = None"
    by (simp add: server_pointer_def world_with_def)
  have b2: "server_pointer (world_with [(''fg-gw-a00009ef'', drifted_record)] [])
              ''fg-gw-a00009ef'' = Some (JStr ''eu1.cloud.thethings.network'')"
    by (simp add: server_pointer_def world_with_def drifted_record_def gateway_payload_def)
  have g: "gateway_id bare_cooler = ''fg-gw-a00009ef''"
    by (simp add: bare_cooler_def walk_in_cooler_def)
  show ?thesis
    using pointer_converges [OF h1] pointer_converges [OF h2] pointer_converges [OF h3]
      h1 h2 h3 b1 b2
    by (simp add: g NAM1_HOST_def)
qed

lemma outcomes_no_failure:
  assumes "filter (\<lambda>x. (fst x = ''register'' \<or> fst x = ''update_server_address'') \<and> \<not> snd x)
             (map (\<lambda>s. (step s, success s)) xs) = []"
  shows "filter (\<lambda>s. (step s = ''register'' \<or> step s = ''update_server_address'')
                      \<and> \<not> success s) xs = []"
  using assms by (induction xs) (auto split: if_splits)

text \<open>
  Claim C2. Take the registry as a run with a successful reconcile phase left it, and run
  \<^verbatim>\<open>provision\<close> again for the same desired state in any world with that registry whose
  existence query is answered. The second run starts with the existence query and makes no
  registration call and no update naming the pointer, then or later; its reconcile phase
  succeeds too; and the pointer at its end is the pointer the first run left, the fixed
  host.
\<close>

theorem second_run_is_a_no_op:
  assumes "reconciled (fst (provision TTN a (GatewayProvisioner w)))"
      and "gateways w2 = gateways (world (snd (provision TTN a (GatewayProvisioner w))))"
      and "ok (existing_response TTN a w2)"
  shows "take 1 (calls (snd (provision TTN a (GatewayProvisioner w2)))) =
           [get_gateway (gateway_id a)]
       \<and> filter is_register (calls (snd (provision TTN a (GatewayProvisioner w2)))) = []
       \<and> filter touches_pointer (calls (snd (provision TTN a (GatewayProvisioner w2)))) = []
       \<and> reconciled (fst (provision TTN a (GatewayProvisioner w2)))
       \<and> server_pointer (world (snd (provision TTN a (GatewayProvisioner w2)))) (gateway_id a) =
           server_pointer (world (snd (provision TTN a (GatewayProvisioner w)))) (gateway_id a)
       \<and> server_pointer (world (snd (provision TTN a (GatewayProvisioner w2)))) (gateway_id a) =
           Some (JStr NAM1_HOST)"
proof -
  let ?g = "gateway_id a"
  let ?p1 = "snd (step1 TTN a ((GatewayProvisioner w2)\<lparr>creds := no_credentials\<rparr>))"
  let ?p2 = "snd (step2 TTN a (existing_response TTN a w2) ?p1)"
  let ?rest = "step7 TTN a (step6 TTN a (step5 TTN a (step4 TTN a (step3 TTN a ?p2))))"
  let ?x = "fst (ttn_request (get_gateway ?g) w2)"
  have "filter (\<lambda>s. (step s = ''register'' \<or> step s = ''update_server_address'')
                     \<and> \<not> success s)
          (results (snd (provision TTN a (GatewayProvisioner w)))) = []"
    using assms(1) by (simp add: reconciled_def provision_log_steps)
  then have first: "server_pointer (world (snd (provision TTN a (GatewayProvisioner w)))) ?g =
                      Some (JStr NAM1_HOST)"
    by (rule run_pointer)
  then have before: "server_pointer w2 ?g = Some (JStr NAM1_HOST)"
    using assms(2) by (simp add: server_pointer_def)
  have okx: "ok ?x"
    using assms(3) by (simp add: existing_response_def TTN_fields)
  have "map_of (gateways w2) ?g = Some (body ?x)"
    using okx by (rule get_gateway_ok)
  with before have correct:
    "dict_get (body ?x) ''gateway_server_address'' (JStr '''') = JStr NAM1_HOST"
    by (simp add: server_pointer_def dict_get_def)
  have cont: "fst (step2 TTN a (existing_response TTN a w2) ?p1)"
    using okx correct by (simp add: step2_def existing_response_def TTN_fields run_simps)
  have run: "provision TTN a (GatewayProvisioner w2) = summary TTN ?g ?rest"
    using cont by (rule provision_continued)
  have c2: "calls ?p2 = [get_gateway ?g]"
    using okx correct
    by (simp add: step1_def step2_def calls_def GatewayProvisioner_def existing_response_def
        TTN_fields run_simps)
  have r2: "map (\<lambda>s. (step s, success s)) (results ?p2) = [(''check_existing'', True)]"
    using okx correct
    by (simp add: step1_def step2_def GatewayProvisioner_def existing_response_def
        TTN_fields run_simps)
  have w2': "server_pointer (world ?p2) ?g = Some (JStr NAM1_HOST)"
    using okx correct before
    by (simp add: step1_def step2_def GatewayProvisioner_def existing_response_def
        TTN_fields run_simps ttn_request_keeps_pointer touches_pointer_def)
  have cs: "calls (snd (provision TTN a (GatewayProvisioner w2))) = calls ?rest"
    by (simp add: run summary_calls)
  have calls_ok: "take 1 (calls ?rest) = [get_gateway ?g]
       \<and> filter is_register (calls ?rest) = []
       \<and> filter touches_pointer (calls ?rest) = []"
    unfolding later_steps_calls c2
    by (simp add: touches_pointer_def split: option.splits)
  have "filter (\<lambda>s. (step s = ''register'' \<or> step s = ''update_server_address'')
                     \<and> \<not> success s) (results ?rest) = []"
    by (rule outcomes_no_failure)
       (simp add: step7_outcomes step6_outcomes step5_outcomes step4_outcomes step3_outcomes
          r2 split: option.splits)
  then have rec: "reconciled (fst (provision TTN a (GatewayProvisioner w2)))"
    by (simp add: reconciled_def run summary_log_steps)
  have after: "server_pointer (world (snd (provision TTN a (GatewayProvisioner w2)))) ?g =
                 Some (JStr NAM1_HOST)"
    by (simp add: run later_steps_keep_pointer w2')
  show ?thesis
    using calls_ok rec after first by (simp add: cs)
qed

theorem second_run_is_a_no_op_witness:
  "reconciled (fst (provision TTN bare_cooler (GatewayProvisioner
        (world_with [(''fg-gw-a00009ef'', drifted_record)] []))))
   \<and> gateways (world_with [(''fg-gw-a00009ef'', gateway_payload walk_in_cooler)] []) =
       gateways (world (snd (provision TTN bare_cooler (GatewayProvisioner
        (world_with [(''fg-gw-a00009ef'', drifted_record)] [])))))
   \<and> ok (existing_response TTN bare_cooler
        (world_with [(''fg-gw-a00009ef'', gateway_payload walk_in_cooler)] []))
   \<and> calls (snd (provision TTN bare_cooler (GatewayProvisioner
        (world_with [(''fg-gw-a00009ef'', drifted_record)] [])))) =
       [get_gateway ''fg-gw-a00009ef'', pointer_update_call bare_cooler,
        get_gateway_connection_stats ''fg-gw-a00009ef'']
   \<and> calls (snd (provision TTN bare_cooler (GatewayProvisioner
        (world_with [(''fg-gw-a00009ef'', gateway_payload walk_in_cooler)] [])))) =
       [get_gateway ''fg-gw-a00009ef'', get_gateway_connection_stats ''fg-gw-a00009ef'']
   \<and> server_pointer (world (snd (provision TTN bare_cooler (GatewayProvisioner
        (world_with [(''fg-gw-a00009ef'', gateway_payload walk_in_cooler)] []))))) ''fg-gw-a00009ef'' =
       server_pointer (world (snd (provision TTN bare_cooler (GatewayProvisioner
        (world_with [(''fg-gw-a00009ef'', drifted_record)] []))))) ''fg-gw-a00009ef''"
proof -
  let ?w = "world_with [(''fg-gw-a00009ef'', drifted_record)] []"
  let ?w2 = "world_with [(''fg-gw-a00009ef'', gateway_payload walk_in_cooler)] []"
  have h1: "reconciled (fst (provision TTN bare_cooler (GatewayProvisioner ?w)))"
    by (simp add: evaluate)
  have h2: "gateways ?w2 = gateways (world (snd (provision TTN bare_cooler (GatewayProvisioner ?w))))"
    by (simp add: evaluate)
  have h3: "ok (existing_response TTN bare_cooler ?w2)"
    by (simp add: evaluate)
  have c1: "calls (snd (provision TTN bare_cooler (GatewayProvisioner ?w))) =
       [get_gateway ''fg-gw-a00009ef'', pointer_update_call bare_cooler,
        get_gateway_connection_stats ''fg-gw-a00009ef'']"
    by (simp add: evaluate)
  have c2: "calls (snd (provision TTN bare_cooler (GatewayProvisioner ?w2))) =
       [get_gateway ''fg-gw-a00009ef'', get_gateway_connection_stats ''fg-gw-a00009ef'']"
    by (simp add: evaluate)
  have g: "gateway_id bare_cooler = ''fg-gw-a00009ef''"
    by (simp add: bare_cooler_def walk_in_cooler_def)
  show ?thesis
    using second_run_is_a_no_op [OF h1 h2 h3] h1 h2 h3 c1 c2
    by (simp add: g)
qed

end
